theory Spec2Isabelle
  imports Complex_Main
begin

section \<open>Numbers, randomness and status effects\<close>

text \<open>
  The simulation of \<^verbatim>\<open>src/enemies.js\<close> computes with JavaScript numbers. They are
  modelled as real numbers: rounding and overflow of the double format are not part of
  this development. The one place where the source can divide zero by zero (the aim of
  an ice bullet) carries an explicit \<open>NaN\<close>.
\<close>

datatype jsnum = Num real | NaN

fun js_add :: "jsnum \<Rightarrow> jsnum \<Rightarrow> jsnum" where
  "js_add (Num a) (Num b) = Num (a + b)"
| "js_add _ _ = NaN"

fun js_sub :: "jsnum \<Rightarrow> jsnum \<Rightarrow> jsnum" where
  "js_sub (Num a) (Num b) = Num (a - b)"
| "js_sub _ _ = NaN"

fun js_mul :: "jsnum \<Rightarrow> jsnum \<Rightarrow> jsnum" where
  "js_mul (Num a) (Num b) = Num (a * b)"
| "js_mul _ _ = NaN"

text \<open>\<^verbatim>\<open>Math.sqrt\<close> of a negative number is \<^verbatim>\<open>NaN\<close>.\<close>

fun js_sqrt :: "jsnum \<Rightarrow> jsnum" where
  "js_sqrt (Num a) = (if a < 0 then NaN else Num (sqrt a))"
| "js_sqrt NaN = NaN"

text \<open>Every comparison with \<open>NaN\<close> is false.\<close>

fun js_less :: "jsnum \<Rightarrow> jsnum \<Rightarrow> bool" where
  "js_less (Num a) (Num b) = (a < b)"
| "js_less _ _ = False"

fun js_le :: "jsnum \<Rightarrow> jsnum \<Rightarrow> bool" where
  "js_le (Num a) (Num b) = (a \<le> b)"
| "js_le _ _ = False"

text \<open>\<^verbatim>\<open>Math.sqrt(dx * dx + dy * dy)\<close>, and the idiom \<^verbatim>\<open>d || 1\<close> on a number.\<close>

definition hyp :: "real \<Rightarrow> real \<Rightarrow> real" where
  "hyp dx dy = sqrt (dx * dx + dy * dy)"

definition or1 :: "real \<Rightarrow> real" where
  "or1 d = (if d = 0 then 1 else d)"

text \<open>
  \<^verbatim>\<open>Math.random()\<close> is an input of the model: the sequence of the numbers it will
  return. Each call takes the first and leaves the rest. The results of
  \<^verbatim>\<open>Math.random()\<close> lie in \<open>[0, 1)\<close>.
\<close>

type_synonym rng = "nat \<Rightarrow> real"

definition random :: "rng \<Rightarrow> real \<times> rng" where
  "random r = (r 0, \<lambda>n. r (Suc n))"

definition unit_rng :: "rng \<Rightarrow> bool" where
  "unit_rng r = (\<forall>i. 0 \<le> r i \<and> r i < 1)"

text \<open>
  A status effect \<^verbatim>\<open>{type, duration, multiplier}\<close>; the duration \<^verbatim>\<open>Infinity\<close> marks a
  permanent effect. The multiplier is read on \<^verbatim>\<open>slow\<close> and \<^verbatim>\<open>permanentSlow\<close> effects only,
  which always carry one.
\<close>

datatype duration = Finite real | Infinity

record effect =
  eff_type :: string
  eff_duration :: duration
  eff_multiplier :: real

record player =
  p_x :: real
  p_y :: real
  p_radius :: real
  abilityCooldown :: real
  p_activeEffects :: "effect list"

section \<open>Zones and entities\<close>

definition MAP_W :: real where "MAP_W = 2000"
definition MAP_H :: real where "MAP_H = 2000"
definition CENTER_X :: real where "CENTER_X = 1000"
definition CENTER_Y :: real where "CENTER_Y = 1000"
definition MAX_PER_ZONE :: nat where "MAX_PER_ZONE = 6"

record zone =
  z_x :: real
  z_y :: real
  z_w :: real
  z_h :: real

definition ZONES_volcanic :: zone where
  "ZONES_volcanic = \<lparr>z_x = 50, z_y = 50, z_w = 900, z_h = 900\<rparr>"
definition ZONES_glacial :: zone where
  "ZONES_glacial = \<lparr>z_x = 1050, z_y = 50, z_w = 900, z_h = 900\<rparr>"
definition ZONES_canopy :: zone where
  "ZONES_canopy = \<lparr>z_x = 1050, z_y = 1050, z_w = 900, z_h = 900\<rparr>"
definition ZONES_reef :: zone where
  "ZONES_reef = \<lparr>z_x = 50, z_y = 1050, z_w = 900, z_h = 900\<rparr>"

text \<open>The fields every enemy has, and the four variants.\<close>

record enemy =
  e_x :: real
  e_y :: real
  e_radius :: real
  speed :: real
  alive :: bool
  frozen :: bool
  activeEffects :: "effect list"

record magmawyrm = enemy +
  sizeMult :: real
  baseSpeed :: real
  speedBoostMult :: real
  trailTimer :: real

record frostwyrm = enemy +
  expandTimer :: real
  expandRadius :: real

record thornwyrm = enemy +
  visible :: bool
  lunging :: bool
  lungeVx :: real
  lungeVy :: real
  teleportRange :: real

record tidewyrm = enemy +
  waveOffset :: real

record lavaTrail =
  lt_x :: real
  lt_y :: real
  lt_radius :: real
  life :: real
  maxLife :: real

record geyser =
  gy_x :: real
  gy_y :: real
  gy_radius :: real
  timer :: real
  erupting :: bool
  eruptDur :: real

record tile =
  t_x :: real
  t_y :: real
  t_w :: real
  t_h :: real

record iceBullet =
  b_x :: jsnum
  b_y :: jsnum
  b_vx :: jsnum
  b_vy :: jsnum
  b_radius :: real
  b_alive :: bool

record foliage =
  o_x :: real
  o_y :: real
  o_r :: real

record bouncer =
  bo_x :: real
  bo_y :: real
  bo_vx :: real
  bo_vy :: real
  bo_r :: real

text \<open>
  The eggs. The canopy egg's \<^verbatim>\<open>_host\<close> refers to one of the zone's obstacles; obstacles
  are only ever appended to their list and changed in place, so the reference is kept
  as the obstacle's index, \<open>None\<close> for \<^verbatim>\<open>null\<close>.
\<close>

record egg =
  egg_x :: real
  egg_y :: real
  collected :: bool

record glacialEgg = egg +
  thawTimer :: real
  thawRequired :: real

record canopyEgg = egg +
  egg_visible :: bool
  egg_host :: "nat option"

record reefEgg = egg +
  egg_vx :: real
  egg_vy :: real

record safeZone =
  sz_x :: real
  sz_y :: real
  sz_radius :: real
  uses :: nat
  maxUses :: nat
  active :: bool
  playerWasInside :: bool

record volcanicZone =
  v_enemies :: "magmawyrm list"
  lavaTrails :: "lavaTrail list"
  geysers :: "geyser list"
  speedTimer :: real
  v_visualPhase :: real
  v_egg :: egg

record glacialZone =
  g_enemies :: "frostwyrm list"
  frozenTiles :: "tile list"
  iceBullets :: "iceBullet list"
  bulletCooldown :: real
  g_egg :: glacialEgg

record canopyZone =
  c_enemies :: "thornwyrm list"
  c_obstacles :: "foliage list"
  c_multiplyTimer :: real
  teleportTimer :: real
  c_teleportRange :: real
  escalateTimer :: real
  escalateWave :: nat
  c_visualPhase :: real
  c_egg :: canopyEgg

record reefZone =
  r_enemies :: "tidewyrm list"
  r_obstacles :: "bouncer list"
  r_multiplyTimer :: real
  waveTimer :: real
  waveComplexity :: nat
  wavePhase :: real
  r_visualPhase :: real
  r_egg :: reefEgg

text \<open>The live state \<^verbatim>\<open>S\<close>.\<close>

record state =
  level :: int
  speedMult :: real
  time :: real
  playerMoved :: bool
  prevPX :: "real option"
  prevPY :: "real option"
  prevAbilityCooldown :: real
  safeZone :: safeZone
  volcanic :: volcanicZone
  glacial :: glacialZone
  canopy :: canopyZone
  reef :: reefZone

section \<open>Shared helpers\<close>

text \<open>\<^verbatim>\<open>_chasePlayer\<close>: move an enemy toward the player, respecting freeze, stun and slow.\<close>

definition chasePlayer :: "'a enemy_scheme \<Rightarrow> player \<Rightarrow> real \<Rightarrow> 'a enemy_scheme" where
  "chasePlayer e p dt =
     (if frozen e then e
      else if list_ex (\<lambda>f. eff_type f = ''freeze'' \<or> eff_type f = ''stun'') (activeEffects e) then e
      else
        let speedMult = foldl (\<lambda>m f. if eff_type f = ''slow'' \<or> eff_type f = ''permanentSlow''
                                        then m * eff_multiplier f else m) 1 (activeEffects e);
            dx = p_x p - e_x e;
            dy = p_y p - e_y e;
            dist = or1 (hyp dx dy)
        in e\<lparr>e_x := e_x e + (dx / dist) * speed e * speedMult * dt,
              e_y := e_y e + (dy / dist) * speed e * speedMult * dt\<rparr>)"

text \<open>\<^verbatim>\<open>_blockFromSafeZone\<close>: the body of its loop, and the loop.\<close>

definition blockOne :: "safeZone \<Rightarrow> 'a enemy_scheme \<Rightarrow> 'a enemy_scheme" where
  "blockOne sz e =
     (if \<not> alive e then e
      else
        let dx = e_x e - sz_x sz;
            dy = e_y e - sz_y sz;
            dist = or1 (hyp dx dy);
            minD = sz_radius sz + e_radius e
        in if dist < minD
           then e\<lparr>e_x := sz_x sz + (dx / dist) * minD, e_y := sz_y sz + (dy / dist) * minD\<rparr>
           else e)"

definition blockFromSafeZone :: "safeZone \<Rightarrow> 'a enemy_scheme list \<Rightarrow> 'a enemy_scheme list" where
  "blockFromSafeZone sz enemies = (if \<not> active sz then enemies else map (blockOne sz) enemies)"

text \<open>
  \<^verbatim>\<open>_knockBack\<close> works on anything with a position; here on the position itself, with
  one wrapper for the player and one for an enemy.
\<close>

definition knockBack :: "real \<times> real \<Rightarrow> bouncer \<Rightarrow> real \<Rightarrow> real \<Rightarrow> real \<times> real" where
  "knockBack pos obs entityRadius distance =
     (let dx = fst pos - bo_x obs;
          dy = snd pos - bo_y obs;
          dist = or1 (hyp dx dy)
      in if dist < entityRadius + bo_r obs
         then (fst pos + (dx / dist) * distance, snd pos + (dy / dist) * distance)
         else pos)"

definition knockBackPlayer :: "player \<Rightarrow> bouncer \<Rightarrow> real \<Rightarrow> real \<Rightarrow> player" where
  "knockBackPlayer p obs entityRadius distance =
     (let q = knockBack (p_x p, p_y p) obs entityRadius distance in p\<lparr>p_x := fst q, p_y := snd q\<rparr>)"

definition knockBackEnemy :: "'a enemy_scheme \<Rightarrow> bouncer \<Rightarrow> real \<Rightarrow> real \<Rightarrow> 'a enemy_scheme" where
  "knockBackEnemy e obs entityRadius distance =
     (let q = knockBack (e_x e, e_y e) obs entityRadius distance in e\<lparr>e_x := fst q, e_y := snd q\<rparr>)"

text \<open>\<^verbatim>\<open>_tickEffects\<close>: finite effects lose \<open>dt\<close> and go when nothing is left.\<close>

definition tickEffect :: "real \<Rightarrow> effect \<Rightarrow> effect option" where
  "tickEffect dt f =
     (case eff_duration f of
        Infinity \<Rightarrow> Some f
      | Finite d \<Rightarrow> if d - dt \<le> 0 then None else Some (f\<lparr>eff_duration := Finite (d - dt)\<rparr>))"

definition tickEffects :: "'a enemy_scheme list \<Rightarrow> real \<Rightarrow> 'a enemy_scheme list" where
  "tickEffects enemies dt =
     map (\<lambda>e. e\<lparr>activeEffects := List.map_filter (tickEffect dt) (activeEffects e)\<rparr>) enemies"

definition inZone :: "real \<Rightarrow> real \<Rightarrow> zone \<Rightarrow> bool" where
  "inZone x y z = (x \<ge> z_x z \<and> x \<le> z_x z + z_w z \<and> y \<ge> z_y z \<and> y \<le> z_y z + z_h z)"

definition aliveCount :: "'a enemy_scheme list \<Rightarrow> nat" where
  "aliveCount enemies = length (filter alive enemies)"

section \<open>The safe zone\<close>

text \<open>The test \<^verbatim>\<open>inside\<close>: the player's circle lies within the safe zone.\<close>

definition inside :: "player \<Rightarrow> safeZone \<Rightarrow> bool" where
  "inside p sz = (hyp (p_x p - sz_x sz) (p_y p - sz_y sz) < sz_radius sz - p_radius p)"

definition updateSafeZone :: "player \<Rightarrow> safeZone \<Rightarrow> safeZone" where
  "updateSafeZone p sz =
     (if \<not> active sz then sz
      else
        let sz1 = (if inside p sz \<and> \<not> playerWasInside sz
                   then let sz' = sz\<lparr>uses := uses sz + 1, sz_radius := sz_radius sz * (4 / 5)\<rparr>
                        in if uses sz' \<ge> maxUses sz' \<or> sz_radius sz' < 18
                           then sz'\<lparr>active := False\<rparr> else sz'
                   else sz)
        in sz1\<lparr>playerWasInside := inside p sz\<rparr>)"

text \<open>
  The radius is the one number of the simulation that the specification gives to its
  last digit, and in the source it is a double. \<open>round64\<close> is the rounding of IEEE 754
  double precision: to the nearest double, a tie going to the one with the even
  significand, the spacing being that of the subnormal numbers below the smallest normal
  one; an overflow to \<^verbatim>\<open>Infinity\<close> is outside of it. \<open>times64\<close> is the product of two
  doubles as \<^verbatim>\<open>*\<close> computes it, and \<open>round64 (4 / 5)\<close> is the literal \<^verbatim>\<open>0.80\<close>.
  \<open>updateSafeZone64\<close> is \<^verbatim>\<open>_updateSafeZone\<close> once more, with the product of
  \<^verbatim>\<open>sz.radius *= 0.80\<close> rounded; what does not depend on the last digit of the radius
  is stated of \<open>updateSafeZone\<close>.
\<close>

definition roundEven :: "real \<Rightarrow> int" where
  "roundEven x =
     (let f = \<lfloor>x\<rfloor>
      in if x - real_of_int f < 1 / 2 then f
         else if x - real_of_int f > 1 / 2 then f + 1
         else if even f then f else f + 1)"

definition round64 :: "real \<Rightarrow> real" where
  "round64 x =
     (if x = 0 then 0
      else
        let e = max \<lfloor>log 2 \<bar>x\<bar>\<rfloor> (- 1022) - 52;
            u = 2 powr real_of_int e
        in real_of_int (roundEven (x / u)) * u)"

definition times64 :: "real \<Rightarrow> real \<Rightarrow> real" where
  "times64 a b = round64 (a * b)"

definition updateSafeZone64 :: "player \<Rightarrow> safeZone \<Rightarrow> safeZone" where
  "updateSafeZone64 p sz =
     (if \<not> active sz then sz
      else
        let sz1 = (if inside p sz \<and> \<not> playerWasInside sz
                   then let sz' = sz\<lparr>uses := uses sz + 1,
                                     sz_radius := times64 (sz_radius sz) (round64 (4 / 5))\<rparr>
                        in if uses sz' \<ge> maxUses sz' \<or> sz_radius sz' < 18
                           then sz'\<lparr>active := False\<rparr> else sz'
                   else sz)
        in sz1\<lparr>playerWasInside := inside p sz\<rparr>)"

section \<open>Volcanic Wastes\<close>

text \<open>
  \<^verbatim>\<open>makeMagmawyrm\<close>; an argument the caller leaves out is \<open>None\<close>, and \<^verbatim>\<open>a || 1\<close> turns
  both a missing and a zero argument into 1. \<open>sm\<close> is \<^verbatim>\<open>S.speedMult\<close>.
\<close>

definition arg_or1 :: "real option \<Rightarrow> real" where
  "arg_or1 a = (case a of None \<Rightarrow> 1 | Some v \<Rightarrow> or1 v)"

definition makeMagmawyrm :: "real \<Rightarrow> real \<Rightarrow> real \<Rightarrow> real option \<Rightarrow> real option \<Rightarrow> magmawyrm" where
  "makeMagmawyrm sm x y sizeMult0 extraSpeed0 =
     (let sizeMult1 = arg_or1 sizeMult0;
          extraSpeed = arg_or1 extraSpeed0;
          base = 60 * sm * extraSpeed
      in \<lparr>e_x = x, e_y = y, e_radius = 20 * sizeMult1, speed = base,
          alive = True, frozen = True, activeEffects = [],
          sizeMult = sizeMult1, baseSpeed = base, speedBoostMult = 1, trailTimer = 0\<rparr>)"

text \<open>The push of the player out of a lava trail or an erupting geyser.\<close>

definition pushOut :: "real \<Rightarrow> real \<Rightarrow> real \<Rightarrow> player \<Rightarrow> player" where
  "pushOut cx cy rad p =
     (let dx = p_x p - cx;
          dy = p_y p - cy;
          dist = hyp dx dy
      in if dist < rad + p_radius p \<and> dist > 0
         then p\<lparr>p_x := p_x p + (dx / dist) * (rad + p_radius p - dist + 1),
                p_y := p_y p + (dy / dist) * (rad + p_radius p - dist + 1)\<rparr>
         else p)"

definition geyserStep :: "real \<Rightarrow> geyser \<Rightarrow> player \<Rightarrow> geyser \<times> player" where
  "geyserStep dt g p =
     (let g1 = g\<lparr>timer := timer g + dt\<rparr>;
          g2 = (if \<not> erupting g1 \<and> timer g1 \<ge> 5 then g1\<lparr>erupting := True, timer := 0\<rparr> else g1);
          g3 = (if erupting g2 \<and> timer g2 \<ge> eruptDur g2 then g2\<lparr>erupting := False, timer := 0\<rparr> else g2)
      in (g3, if erupting g3 then pushOut (gy_x g3) (gy_y g3) (gy_radius g3) p else p))"

fun geysersLoop :: "real \<Rightarrow> geyser list \<Rightarrow> player \<Rightarrow> geyser list \<times> player" where
  "geysersLoop dt [] p = ([], p)"
| "geysersLoop dt (g # gs) p =
     (let (g', p') = geyserStep dt g p;
          (gs', p'') = geysersLoop dt gs p'
      in (g' # gs', p''))"

text \<open>One child of a split: two calls of \<^verbatim>\<open>Math.random()\<close>, for x and then for y.\<close>

definition splitChild :: "real \<Rightarrow> magmawyrm \<Rightarrow> rng \<Rightarrow> magmawyrm \<times> rng" where
  "splitChild sm e r =
     (let (u, r1) = random r;
          (v, r2) = random r1;
          child = makeMagmawyrm sm (e_x e + (u - 1 / 2) * e_radius e * 2)
                                   (e_y e + (v - 1 / 2) * e_radius e * 2)
                                   (Some (sizeMult e * (3 / 5))) (Some (13 / 10));
          child1 = child\<lparr>frozen := False\<rparr>;
          child2 = child1\<lparr>speedBoostMult := speedBoostMult e\<rparr>;
          child3 = child2\<lparr>speed := baseSpeed child2 * speedBoostMult child2\<rparr>
      in (child3, r2))"

text \<open>
  The body of the loop over \<^verbatim>\<open>v.enemies\<close>, in two halves. First the enemy chases
  the player and drops lava; then, when the ability was used, comes the test
  \<^verbatim>\<open>Math.sqrt(dx * dx + dy * dy) <= 200 && e.sizeMult > 0.4\<close> and the split.
  The array is changed in place while the loop runs: \<open>before\<close> holds the elements
  already visited, as the loop left them, \<open>after\<close> the ones still to come, so that
  \<^verbatim>\<open>_aliveCount('volcanic')\<close> counts \<open>before\<close>, the current enemy and \<open>after\<close>.
  The children wait in \<open>newSplits\<close>.
\<close>

definition magmaMove :: "real \<Rightarrow> player \<Rightarrow> magmawyrm \<Rightarrow> lavaTrail list \<Rightarrow> magmawyrm \<times> lavaTrail list" where
  "magmaMove dt p e trails =
     (let e1 = chasePlayer e p dt;
          e2 = e1\<lparr>trailTimer := trailTimer e1 + dt\<rparr>
      in if trailTimer e2 \<ge> 3 / 10
         then (e2\<lparr>trailTimer := 0\<rparr>,
               trails @ [\<lparr>lt_x = e_x e2, lt_y = e_y e2, lt_radius = e_radius e2 * (9 / 10),
                          life = 5, maxLife = 5\<rparr>])
         else (e2, trails))"

definition splits :: "player \<Rightarrow> magmawyrm \<Rightarrow> bool" where
  "splits p e = (hyp (p_x p - e_x e) (p_y p - e_y e) \<le> 200 \<and> sizeMult e > 2 / 5)"

definition magmaBody ::
  "real \<Rightarrow> player \<Rightarrow> bool \<Rightarrow> real \<Rightarrow> magmawyrm list \<Rightarrow> magmawyrm list \<Rightarrow> magmawyrm
     \<Rightarrow> lavaTrail list \<Rightarrow> magmawyrm list \<Rightarrow> rng
     \<Rightarrow> magmawyrm \<times> lavaTrail list \<times> magmawyrm list \<times> rng" where
  "magmaBody dt p used sm before after e trails newSplits r =
     (if \<not> alive e \<or> frozen e then (e, trails, newSplits, r)
      else
        let (e3, trails1) = magmaMove dt p e trails
        in if used \<and> splits p e3
           then
             let e4 = e3\<lparr>alive := False\<rparr>
             in if aliveCount (before @ e4 # after) + 2 \<le> MAX_PER_ZONE
                then
                  let (c1, r1) = splitChild sm e4 r;
                      (c2, r2) = splitChild sm e4 r1
                  in (e4, trails1, newSplits @ [c1, c2], r2)
                else (e4, trails1, newSplits, r)
           else (e3, trails1, newSplits, r))"

fun magmaLoop ::
  "real \<Rightarrow> player \<Rightarrow> bool \<Rightarrow> real \<Rightarrow> magmawyrm list \<Rightarrow> magmawyrm list
     \<Rightarrow> lavaTrail list \<Rightarrow> magmawyrm list \<Rightarrow> rng
     \<Rightarrow> magmawyrm list \<times> lavaTrail list \<times> magmawyrm list \<times> rng" where
  "magmaLoop dt p used sm before [] trails newSplits r = (before, trails, newSplits, r)"
| "magmaLoop dt p used sm before (e # after) trails newSplits r =
     (let (e', trails', newSplits', r') = magmaBody dt p used sm before after e trails newSplits r
      in magmaLoop dt p used sm (before @ [e']) after trails' newSplits' r')"

text \<open>
  \<^verbatim>\<open>_updateVolcanic\<close> up to its loop over the enemies: the speed boost, the lava
  trails and the geysers, which may push the player.
\<close>

definition speedBoost :: "real \<Rightarrow> volcanicZone \<Rightarrow> volcanicZone" where
  "speedBoost dt v =
     (let v1 = v\<lparr>speedTimer := speedTimer v + dt\<rparr>
      in if speedTimer v1 \<ge> 5
         then v1\<lparr>speedTimer := speedTimer v1 - 5,
                 v_enemies :=
                   map (\<lambda>e. let e' = e\<lparr>speedBoostMult := speedBoostMult e * (23 / 20)\<rparr>
                             in e'\<lparr>speed := baseSpeed e' * speedBoostMult e'\<rparr>) (v_enemies v1)\<rparr>
         else v1)"

definition volcanicHazards :: "real \<Rightarrow> player \<Rightarrow> volcanicZone \<Rightarrow> volcanicZone \<times> player" where
  "volcanicHazards dt player v =
     (let trails = filter (\<lambda>t. life t > 0) (map (\<lambda>t. t\<lparr>life := life t - dt\<rparr>) (lavaTrails v));
          p1 = foldl (\<lambda>p t. pushOut (lt_x t) (lt_y t) (lt_radius t) p) player trails;
          (gs, p2) = geysersLoop dt (geysers v) p1
      in (v\<lparr>lavaTrails := trails, geysers := gs\<rparr>, p2))"

definition updateVolcanic ::
  "real \<Rightarrow> player \<Rightarrow> bool \<Rightarrow> real \<Rightarrow> safeZone \<Rightarrow> rng \<Rightarrow> volcanicZone
     \<Rightarrow> volcanicZone \<times> player \<times> rng" where
  "updateVolcanic dt player used sm sz r v =
     (let (v1, p1) = volcanicHazards dt player (speedBoost dt v);
          ticked = tickEffects (v_enemies v1) dt;
          (es, trails, newSplits, r') = magmaLoop dt p1 used sm [] ticked (lavaTrails v1) [] r
      in (v1\<lparr>v_enemies := blockFromSafeZone sz (filter alive es @ newSplits), lavaTrails := trails\<rparr>,
          p1, r'))"

section \<open>Glacial Peaks\<close>

definition makeFrostwyrm :: "real \<Rightarrow> real \<Rightarrow> real \<Rightarrow> frostwyrm" where
  "makeFrostwyrm sm x y =
     \<lparr>e_x = x, e_y = y, e_radius = 24, speed = 30 * sm,
      alive = True, frozen = True, activeEffects = [],
      expandTimer = 0, expandRadius = 50\<rparr>"

text \<open>
  The velocity of a new ice bullet, \<^verbatim>\<open>(bx / dist) * spd\<close>. The source divides by
  \<^verbatim>\<open>dist\<close> as it is; \<^verbatim>\<open>dist\<close> is zero only when \<^verbatim>\<open>bx\<close> and \<^verbatim>\<open>by\<close> both are, and zero
  divided by zero is \<^verbatim>\<open>NaN\<close>.
\<close>

definition js_div :: "real \<Rightarrow> real \<Rightarrow> jsnum" where
  "js_div a b = (if b = 0 then NaN else Num (a / b))"

text \<open>
  The body of the loop over \<^verbatim>\<open>g.enemies\<close>. The cooldown \<^verbatim>\<open>g.bulletCooldown\<close> is a field
  of the zone: every enemy that the loop visits takes \<open>dt\<close> from it.
\<close>

definition frostBody ::
  "real \<Rightarrow> player \<Rightarrow> frostwyrm \<Rightarrow> tile list \<Rightarrow> iceBullet list \<Rightarrow> real \<Rightarrow> rng
     \<Rightarrow> frostwyrm \<times> tile list \<times> iceBullet list \<times> real \<times> rng" where
  "frostBody dt p e tiles bullets cooldown r =
     (if \<not> alive e \<or> frozen e then (e, tiles, bullets, cooldown, r)
      else
        let z = ZONES_glacial;
            e1 = e\<lparr>expandTimer := expandTimer e + dt\<rparr>;
            (e2, tiles1, r1) =
              (if expandTimer e1 \<ge> 3 / 2
               then
                 let ea = e1\<lparr>expandTimer := 0\<rparr>;
                     (u, ra) = random r;
                     ang = u * pi * 2;
                     t = \<lparr>t_x = e_x ea + cos ang * expandRadius ea - 20,
                          t_y = e_y ea + sin ang * expandRadius ea - 20,
                          t_w = 40, t_h = 40\<rparr>;
                     eb = ea\<lparr>expandRadius := min (expandRadius ea + 6) 220\<rparr>;
                     (v, rb) = random ra;
                     ec = eb\<lparr>e_x := e_x eb + (v - 1 / 2) * 18\<rparr>;
                     (w, rc) = random rb;
                     ed = ec\<lparr>e_y := e_y ec + (w - 1 / 2) * 18\<rparr>;
                     ee = ed\<lparr>e_x := max (z_x z + e_radius ed) (min (z_x z + z_w z - e_radius ed) (e_x ed))\<rparr>;
                     ef = ee\<lparr>e_y := max (z_y z + e_radius ee) (min (z_y z + z_h z - e_radius ee) (e_y ee))\<rparr>
                 in (ef, tiles @ [t], rc)
               else (e1, tiles, r));
            cooldown1 = cooldown - dt
        in if cooldown1 \<le> 0
           then
             let bx = p_x p - e_x e2;
                 by = p_y p - e_y e2;
                 dist = hyp bx by
             in if dist \<le> 300
                then
                  let spd = 210;
                      b = \<lparr>b_x = Num (e_x e2), b_y = Num (e_y e2),
                           b_vx = js_mul (js_div bx dist) (Num spd),
                           b_vy = js_mul (js_div by dist) (Num spd),
                           b_radius = 8, b_alive = True\<rparr>
                  in (e2, tiles1, bullets @ [b], 2, r1)
                else (e2, tiles1, bullets, 1 / 2, r1)
           else (e2, tiles1, bullets, cooldown1, r1))"

fun frostLoop ::
  "real \<Rightarrow> player \<Rightarrow> frostwyrm list \<Rightarrow> tile list \<Rightarrow> iceBullet list \<Rightarrow> real \<Rightarrow> rng
     \<Rightarrow> frostwyrm list \<times> tile list \<times> iceBullet list \<times> real \<times> rng" where
  "frostLoop dt p [] tiles bullets cooldown r = ([], tiles, bullets, cooldown, r)"
| "frostLoop dt p (e # es) tiles bullets cooldown r =
     (let (e', tiles', bullets', cooldown', r') = frostBody dt p e tiles bullets cooldown r;
          (es', tiles'', bullets'', cooldown'', r'') = frostLoop dt p es tiles' bullets' cooldown' r'
      in (e' # es', tiles'', bullets'', cooldown'', r''))"

definition deadEffect :: effect where
  "deadEffect = \<lparr>eff_type = ''dead'', eff_duration = Infinity, eff_multiplier = 1\<rparr>"

text \<open>Whether a bullet has left the map, and whether it touches the player.\<close>

definition outOfBounds :: "iceBullet \<Rightarrow> bool" where
  "outOfBounds b =
     (js_less (b_x b) (Num 0) \<or> js_less (Num MAP_W) (b_x b)
      \<or> js_less (b_y b) (Num 0) \<or> js_less (Num MAP_H) (b_y b))"

definition touches :: "player \<Rightarrow> iceBullet \<Rightarrow> bool" where
  "touches p b =
     (let dx = js_sub (Num (p_x p)) (b_x b);
          dy = js_sub (Num (p_y p)) (b_y b)
      in js_le (js_sqrt (js_add (js_mul dx dx) (js_mul dy dy))) (Num (p_radius p + b_radius b)))"

definition moveBullet :: "real \<Rightarrow> iceBullet \<Rightarrow> iceBullet" where
  "moveBullet dt b =
     (let b1 = b\<lparr>b_x := js_add (b_x b) (js_mul (b_vx b) (Num dt))\<rparr>
      in b1\<lparr>b_y := js_add (b_y b1) (js_mul (b_vy b1) (Num dt))\<rparr>)"

definition bulletStep :: "real \<Rightarrow> iceBullet \<Rightarrow> player \<Rightarrow> iceBullet \<times> player" where
  "bulletStep dt b p =
     (if \<not> b_alive b then (b, p)
      else
        let b2 = moveBullet dt b;
            hit = touches p b2;
            b3 = (if hit then b2\<lparr>b_alive := False\<rparr> else b2);
            p1 = (if hit then p\<lparr>p_activeEffects := p_activeEffects p @ [deadEffect]\<rparr> else p);
            b4 = (if outOfBounds b3 then b3\<lparr>b_alive := False\<rparr> else b3)
        in (b4, p1))"

fun bulletsLoop :: "real \<Rightarrow> iceBullet list \<Rightarrow> player \<Rightarrow> iceBullet list \<times> player" where
  "bulletsLoop dt [] p = ([], p)"
| "bulletsLoop dt (b # bs) p =
     (let (b', p') = bulletStep dt b p;
          (bs', p'') = bulletsLoop dt bs p'
      in (b' # bs', p''))"

definition tilePush :: "tile \<Rightarrow> player \<Rightarrow> player" where
  "tilePush t p =
     (if p_x p > t_x t - p_radius p \<and> p_x p < t_x t + t_w t + p_radius p \<and>
         p_y p > t_y t - p_radius p \<and> p_y p < t_y t + t_h t + p_radius p
      then
        let cx = p_x p - (t_x t + t_w t / 2);
            cy = p_y p - (t_y t + t_h t / 2);
            overlapX = (t_w t / 2 + p_radius p) - \<bar>cx\<bar>;
            overlapY = (t_h t / 2 + p_radius p) - \<bar>cy\<bar>
        in if overlapX > 0 \<and> overlapY > 0
           then if overlapX < overlapY
                then p\<lparr>p_x := p_x p + overlapX * (if cx < 0 then - 1 else 1)\<rparr>
                else p\<lparr>p_y := p_y p + overlapY * (if cy < 0 then - 1 else 1)\<rparr>
           else p
      else p)"

definition glacialEggStep :: "real \<Rightarrow> player \<Rightarrow> glacialEgg \<Rightarrow> glacialEgg" where
  "glacialEggStep dt p egg =
     (if \<not> collected egg
      then
        let ex = p_x p - egg_x egg;
            ey = p_y p - egg_y egg
        in if hyp ex ey \<le> p_radius p + 30
           then let egg1 = egg\<lparr>thawTimer := thawTimer egg + dt\<rparr>
                in if thawTimer egg1 \<ge> thawRequired egg1 then egg1\<lparr>collected := True\<rparr> else egg1
           else egg\<lparr>thawTimer := max 0 (thawTimer egg - dt * (1 / 2))\<rparr>
      else egg)"

definition updateGlacial ::
  "real \<Rightarrow> player \<Rightarrow> safeZone \<Rightarrow> rng \<Rightarrow> glacialZone \<Rightarrow> glacialZone \<times> player \<times> rng" where
  "updateGlacial dt player sz r g =
     (let ticked = tickEffects (g_enemies g) dt;
          (es, tiles, bullets, cooldown, r') =
             frostLoop dt player ticked (frozenTiles g) (iceBullets g) (bulletCooldown g) r;
          (bullets', p1) = bulletsLoop dt bullets player;
          p2 = foldl (\<lambda>p t. tilePush t p) p1 tiles;
          egg = glacialEggStep dt p2 (g_egg g)
      in (g\<lparr>g_enemies := blockFromSafeZone sz es, frozenTiles := tiles,
            iceBullets := filter b_alive bullets', bulletCooldown := cooldown, g_egg := egg\<rparr>,
          p2, r'))"

section \<open>Ancient Canopy\<close>

definition makeThornwyrm :: "real \<Rightarrow> real \<Rightarrow> real \<Rightarrow> real \<Rightarrow> thornwyrm" where
  "makeThornwyrm sm tr x y =
     \<lparr>e_x = x, e_y = y, e_radius = 16, speed = 80 * sm,
      alive = True, frozen = True, activeEffects = [],
      visible = False, lunging = False, lungeVx = 0, lungeVy = 0,
      teleportRange = tr\<rparr>"

text \<open>\<^verbatim>\<open>_spawnThornwyrm\<close>; \<open>moved\<close> is \<^verbatim>\<open>S.playerMoved\<close>.\<close>

definition spawnThornwyrm :: "real \<Rightarrow> bool \<Rightarrow> rng \<Rightarrow> canopyZone \<Rightarrow> canopyZone \<times> rng" where
  "spawnThornwyrm sm moved r c =
     (if aliveCount (c_enemies c) \<ge> MAX_PER_ZONE then (c, r)
      else
        let z = ZONES_canopy;
            (u, r1) = random r;
            (v, r2) = random r1;
            tw = makeThornwyrm sm (c_teleportRange c)
                   (z_x z + 120 + u * (z_w z - 240)) (z_y z + 120 + v * (z_h z - 240));
            tw1 = tw\<lparr>frozen := \<not> moved\<rparr>
        in (c\<lparr>c_enemies := c_enemies c @ [tw1]\<rparr>, r2))"

fun addCanopyObstacles :: "nat \<Rightarrow> foliage list \<Rightarrow> rng \<Rightarrow> foliage list \<times> rng" where
  "addCanopyObstacles 0 obs r = (obs, r)"
| "addCanopyObstacles (Suc n) obs r =
     (let z = ZONES_canopy;
          (u, r1) = random r;
          (v, r2) = random r1;
          (w, r3) = random r2
      in addCanopyObstacles n
           (obs @ [\<lparr>o_x = z_x z + 80 + u * (z_w z - 160),
                    o_y = z_y z + 80 + v * (z_h z - 160),
                    o_r = 35 + w * 25\<rparr>]) r3)"

text \<open>
  \<^verbatim>\<open>_assignCanopyEgg\<close>. The index \<^verbatim>\<open>Math.floor(Math.random() * obs.length)\<close> is in range
  for every result of \<^verbatim>\<open>Math.random()\<close>; outside of \<open>[0, 1)\<close> the source would read a
  field of \<^verbatim>\<open>undefined\<close>, and the model leaves the egg as it is.
\<close>

definition assignCanopyEgg :: "foliage list \<Rightarrow> rng \<Rightarrow> canopyEgg \<Rightarrow> canopyEgg \<times> rng" where
  "assignCanopyEgg obs r egg =
     (if obs = [] then (egg, r)
      else
        let (u, r1) = random r;
            i = \<lfloor>u * real (length obs)\<rfloor>
        in if 0 \<le> i \<and> i < int (length obs)
           then (egg\<lparr>egg_host := Some (nat i), egg_x := o_x (obs ! nat i), egg_y := o_y (obs ! nat i)\<rparr>, r1)
           else (egg, r1))"

fun joltLoop :: "foliage list \<Rightarrow> rng \<Rightarrow> foliage list \<times> rng" where
  "joltLoop [] r = ([], r)"
| "joltLoop (obs # rest) r =
     (let z = ZONES_canopy;
          (u, r1) = random r;
          obs1 = obs\<lparr>o_x := max (z_x z + o_r obs) (min (z_x z + z_w z - o_r obs) (o_x obs + (u - 1 / 2) * 70))\<rparr>;
          (v, r2) = random r1;
          obs2 = obs1\<lparr>o_y := max (z_y z + o_r obs1) (min (z_y z + z_h z - o_r obs1) (o_y obs1 + (v - 1 / 2) * 70))\<rparr>;
          (rest', r3) = joltLoop rest r2
      in (obs2 # rest', r3))"

text \<open>\<^verbatim>\<open>Math.atan2\<close> on real numbers.\<close>

definition atan2 :: "real \<Rightarrow> real \<Rightarrow> real" where
  "atan2 y x =
     (if x > 0 then arctan (y / x)
      else if x < 0 then (if y \<ge> 0 then arctan (y / x) + pi else arctan (y / x) - pi)
      else if y > 0 then pi / 2
      else if y < 0 then - (pi / 2)
      else 0)"

definition thornBody :: "real \<Rightarrow> player \<Rightarrow> thornwyrm \<Rightarrow> thornwyrm" where
  "thornBody dt p e =
     (if \<not> alive e \<or> frozen e then e
      else
        let dx = p_x p - e_x e;
            dy = p_y p - e_y e;
            dist = or1 (hyp dx dy);
            e1 = (if \<not> visible e \<and> dist \<le> 150
                  then let ls = speed e * (5 / 2)
                       in e\<lparr>visible := True, lunging := True,
                             lungeVx := (dx / dist) * ls, lungeVy := (dy / dist) * ls\<rparr>
                  else e);
            e2 = (if lunging e1
                  then
                    let ea = e1\<lparr>e_x := e_x e1 + lungeVx e1 * dt\<rparr>;
                        eb = ea\<lparr>e_y := e_y ea + lungeVy ea * dt\<rparr>;
                        dx2 = p_x p - e_x eb;
                        dy2 = p_y p - e_y eb;
                        ec = (if hyp dx2 dy2 \<le> e_radius eb + p_radius p + 8
                              then eb\<lparr>lunging := False\<rparr> else eb)
                    in if hyp dx2 dy2 > teleportRange ec
                       then let ang = atan2 dy2 dx2
                            in ec\<lparr>e_x := p_x p - cos ang * (teleportRange ec * (3 / 4)),
                                   e_y := p_y p - sin ang * (teleportRange ec * (3 / 4))\<rparr>
                       else ec
                  else if visible e1 then chasePlayer e1 p dt
                  else e1);
            z = ZONES_canopy;
            e3 = e2\<lparr>e_x := max (z_x z + e_radius e2) (min (z_x z + z_w z - e_radius e2) (e_x e2))\<rparr>
        in e3\<lparr>e_y := max (z_y z + e_radius e3) (min (z_y z + z_h z - e_radius e3) (e_y e3))\<rparr>)"

text \<open>
  The egg follows its host obstacle. An index outside of the obstacle list has no
  counterpart in the source, where the host is one of the obstacles.
\<close>

definition canopyEggStep :: "player \<Rightarrow> foliage list \<Rightarrow> canopyEgg \<Rightarrow> canopyEgg" where
  "canopyEggStep p obs egg =
     (case egg_host egg of
        None \<Rightarrow> egg
      | Some i \<Rightarrow>
          if \<not> collected egg \<and> i < length obs
          then
            let egg1 = egg\<lparr>egg_x := o_x (obs ! i), egg_y := o_y (obs ! i)\<rparr>;
                ex = p_x p - egg_x egg1;
                ey = p_y p - egg_y egg1;
                egg2 = egg1\<lparr>egg_visible := (hyp ex ey \<le> 100)\<rparr>
            in if egg_visible egg2 \<and> hyp ex ey \<le> p_radius p + 18
               then egg2\<lparr>collected := True\<rparr> else egg2
          else egg)"

text \<open>
  \<^verbatim>\<open>_updateCanopy\<close> up to its loop over the enemies, in its four steps: the silent
  growth, the teleport range, the escalation of the obstacles, and the jolt.
\<close>

definition canopyMultiply :: "real \<Rightarrow> player \<Rightarrow> real \<Rightarrow> bool \<Rightarrow> rng \<Rightarrow> canopyZone \<Rightarrow> canopyZone \<times> rng" where
  "canopyMultiply dt player sm moved r c =
     (let playerInCanopy = inZone (p_x player) (p_y player) ZONES_canopy;
          c1 = c\<lparr>c_multiplyTimer := c_multiplyTimer c + dt\<rparr>
      in if \<not> playerInCanopy \<and> c_multiplyTimer c1 \<ge> 10
         then spawnThornwyrm sm moved r (c1\<lparr>c_multiplyTimer := 0\<rparr>)
         else (c1, r))"

definition canopyTeleport :: "real \<Rightarrow> canopyZone \<Rightarrow> canopyZone" where
  "canopyTeleport dt c =
     (let c1 = c\<lparr>teleportTimer := teleportTimer c + dt\<rparr>
      in if teleportTimer c1 \<ge> 5
         then let ca = c1\<lparr>teleportTimer := 0, c_teleportRange := c_teleportRange c1 + 50\<rparr>
              in ca\<lparr>c_enemies := map (\<lambda>e. e\<lparr>teleportRange := c_teleportRange ca\<rparr>) (c_enemies ca)\<rparr>
         else c1)"

definition canopyEscalate :: "real \<Rightarrow> rng \<Rightarrow> canopyZone \<Rightarrow> canopyZone \<times> rng" where
  "canopyEscalate dt r c =
     (let c1 = c\<lparr>escalateTimer := escalateTimer c + dt\<rparr>
      in if escalateTimer c1 \<ge> 5
         then
           let ca = c1\<lparr>escalateTimer := 0, escalateWave := min (escalateWave c1 + 1) 3\<rparr>;
               (obs, ra) = addCanopyObstacles (escalateWave ca) (c_obstacles ca) r;
               cb = ca\<lparr>c_obstacles := obs\<rparr>
           in if egg_host (c_egg cb) = None
              then let (egg, rb) = assignCanopyEgg (c_obstacles cb) ra (c_egg cb)
                   in (cb\<lparr>c_egg := egg\<rparr>, rb)
              else (cb, ra)
         else (c1, r))"

definition canopyJolt :: "real \<Rightarrow> rng \<Rightarrow> canopyZone \<Rightarrow> canopyZone \<times> rng" where
  "canopyJolt dt r c =
     (let (u, r1) = random r
      in if u < dt * (4 / 5)
         then let (obs, ra) = joltLoop (c_obstacles c) r1 in (c\<lparr>c_obstacles := obs\<rparr>, ra)
         else (c, r1))"

definition updateCanopy ::
  "real \<Rightarrow> player \<Rightarrow> real \<Rightarrow> bool \<Rightarrow> safeZone \<Rightarrow> rng \<Rightarrow> canopyZone \<Rightarrow> canopyZone \<times> player \<times> rng" where
  "updateCanopy dt player sm moved sz r c =
     (let (c1, r1) = canopyMultiply dt player sm moved r c;
          c2 = canopyTeleport dt c1;
          (c3, r3) = canopyEscalate dt r1 c2;
          (c4, r4) = canopyJolt dt r3 c3;
          es = map (thornBody dt player) (tickEffects (c_enemies c4) dt);
          egg = canopyEggStep player (c_obstacles c4) (c_egg c4)
      in (c4\<lparr>c_enemies := blockFromSafeZone sz es, c_egg := egg\<rparr>, player, r4))"

section \<open>Sunken Reef\<close>

definition makeTidewyrm :: "real \<Rightarrow> real \<Rightarrow> real \<Rightarrow> real option \<Rightarrow> tidewyrm" where
  "makeTidewyrm sm x y waveOffset0 =
     \<lparr>e_x = x, e_y = y, e_radius = 14, speed = 70 * sm,
      alive = True, frozen = True, activeEffects = [],
      waveOffset = (case waveOffset0 of None \<Rightarrow> 0 | Some w \<Rightarrow> w)\<rparr>"

text \<open>
  The school's movement: \<open>n\<close> is the number of the enemies that are alive and not
  frozen, \<open>i\<close> the position of this one among them.
\<close>

definition waveStep :: "real \<Rightarrow> real \<Rightarrow> nat \<Rightarrow> nat \<Rightarrow> nat \<Rightarrow> tidewyrm \<Rightarrow> tidewyrm" where
  "waveStep dt wPhase wComplexity n i e =
     (let z = ZONES_reef;
          phase = wPhase + waveOffset e;
          freq = 4 / 5 + real wComplexity * (3 / 20);
          tx0 = z_x z + z_w z / 2 + cos (phase * freq) * (z_w z * (9 / 25));
          ty0 = z_y z + z_h z / 2
                + sin (phase * freq + (real i / real (max n 1)) * pi * 2) * (z_h z * (9 / 25));
          tx1 = (if wComplexity \<ge> 2 then tx0 + sin (phase * (23 / 10) + real i) * 80 else tx0);
          ty1 = (if wComplexity \<ge> 2 then ty0 + cos (phase * (17 / 10) + real i) * 80 else ty0);
          tx2 = (if wComplexity \<ge> 3 then tx1 + cos (phase * (31 / 10)) * 45 else tx1);
          ty2 = (if wComplexity \<ge> 3 then ty1 + sin (phase * (29 / 10)) * 45 else ty1);
          tx = (if wComplexity \<ge> 4 then tx2 + sin (phase * (21 / 5) + real i * (1 / 2)) * 30 else tx2);
          ty = (if wComplexity \<ge> 4 then ty2 + cos (phase * (19 / 5) - real i * (1 / 2)) * 30 else ty2);
          dx = tx - e_x e;
          dy = ty - e_y e;
          dist = or1 (hyp dx dy);
          e1 = e\<lparr>e_x := e_x e + (dx / dist) * speed e * dt\<rparr>;
          e2 = e1\<lparr>e_y := e_y e1 + (dy / dist) * speed e1 * dt\<rparr>;
          e3 = e2\<lparr>e_x := max (z_x z + e_radius e2) (min (z_x z + z_w z - e_radius e2) (e_x e2))\<rparr>
      in e3\<lparr>e_y := max (z_y z + e_radius e3) (min (z_y z + z_h z - e_radius e3) (e_y e3))\<rparr>)"

fun waveLoop :: "real \<Rightarrow> real \<Rightarrow> nat \<Rightarrow> nat \<Rightarrow> nat \<Rightarrow> tidewyrm list \<Rightarrow> tidewyrm list" where
  "waveLoop dt wPhase wComplexity n i [] = []"
| "waveLoop dt wPhase wComplexity n i (e # es) =
     (if alive e \<and> \<not> frozen e
      then waveStep dt wPhase wComplexity n i e # waveLoop dt wPhase wComplexity n (Suc i) es
      else e # waveLoop dt wPhase wComplexity n i es)"

definition bounce :: "real \<Rightarrow> bouncer \<Rightarrow> bouncer" where
  "bounce dt obs =
     (let z = ZONES_reef;
          o1 = obs\<lparr>bo_x := bo_x obs + bo_vx obs * dt\<rparr>;
          o2 = o1\<lparr>bo_y := bo_y o1 + bo_vy o1 * dt\<rparr>;
          o3 = (if bo_x o2 - bo_r o2 < z_x z
                then o2\<lparr>bo_x := z_x z + bo_r o2, bo_vx := \<bar>bo_vx o2\<bar>\<rparr> else o2);
          o4 = (if bo_x o3 + bo_r o3 > z_x z + z_w z
                then o3\<lparr>bo_x := z_x z + z_w z - bo_r o3, bo_vx := - \<bar>bo_vx o3\<bar>\<rparr> else o3);
          o5 = (if bo_y o4 - bo_r o4 < z_y z
                then o4\<lparr>bo_y := z_y z + bo_r o4, bo_vy := \<bar>bo_vy o4\<bar>\<rparr> else o4)
      in if bo_y o5 + bo_r o5 > z_y z + z_h z
         then o5\<lparr>bo_y := z_y z + z_h z - bo_r o5, bo_vy := - \<bar>bo_vy o5\<bar>\<rparr> else o5)"

fun bouncersLoop ::
  "real \<Rightarrow> bouncer list \<Rightarrow> player \<Rightarrow> tidewyrm list \<Rightarrow> bouncer list \<times> player \<times> tidewyrm list" where
  "bouncersLoop dt [] p es = ([], p, es)"
| "bouncersLoop dt (obs # rest) p es =
     (let obs' = bounce dt obs;
          p' = knockBackPlayer p obs' (p_radius p) 40;
          es' = map (\<lambda>e. if alive e then knockBackEnemy e obs' (e_radius e) 40 else e) es;
          (rest', p'', es'') = bouncersLoop dt rest p' es'
      in (obs' # rest', p'', es''))"

definition reefEggStep :: "real \<Rightarrow> player \<Rightarrow> reefEgg \<Rightarrow> reefEgg" where
  "reefEggStep dt p egg =
     (if \<not> collected egg
      then
        let z = ZONES_reef;
            g1 = egg\<lparr>egg_x := egg_x egg + egg_vx egg * dt\<rparr>;
            g2 = g1\<lparr>egg_y := egg_y g1 + egg_vy g1 * dt\<rparr>;
            g3 = (if egg_x g2 < z_x z + 20 then g2\<lparr>egg_x := z_x z + 20, egg_vx := \<bar>egg_vx g2\<bar>\<rparr> else g2);
            g4 = (if egg_x g3 > z_x z + z_w z - 20
                  then g3\<lparr>egg_x := z_x z + z_w z - 20, egg_vx := - \<bar>egg_vx g3\<bar>\<rparr> else g3);
            g5 = (if egg_y g4 < z_y z + 20 then g4\<lparr>egg_y := z_y z + 20, egg_vy := \<bar>egg_vy g4\<bar>\<rparr> else g4);
            g6 = (if egg_y g5 > z_y z + z_h z - 20
                  then g5\<lparr>egg_y := z_y z + z_h z - 20, egg_vy := - \<bar>egg_vy g5\<bar>\<rparr> else g5);
            ex = p_x p - egg_x g6;
            ey = p_y p - egg_y g6
        in if hyp ex ey \<le> p_radius p + 18 then g6\<lparr>collected := True\<rparr> else g6
      else egg)"

text \<open>
  \<^verbatim>\<open>_updateReef\<close> up to its loop over the school: the growth of the school, and the
  wave timers.
\<close>

definition reefMultiply :: "real \<Rightarrow> real \<Rightarrow> rng \<Rightarrow> reefZone \<Rightarrow> reefZone \<times> rng" where
  "reefMultiply dt sm r rf =
     (let z = ZONES_reef;
          rf1 = rf\<lparr>r_multiplyTimer := r_multiplyTimer rf + dt\<rparr>
      in if r_multiplyTimer rf1 \<ge> 10
         then
           let ra = rf1\<lparr>r_multiplyTimer := 0\<rparr>
           in if aliveCount (r_enemies ra) < MAX_PER_ZONE
              then
                let (u, r1) = random r;
                    (v, r2) = random r1;
                    (w, r3) = random r2;
                    tw = makeTidewyrm sm (z_x z + 150 + u * (z_w z - 300))
                           (z_y z + 150 + v * (z_h z - 300)) (Some (w * pi * 2));
                    tw1 = tw\<lparr>frozen := False\<rparr>
                in (ra\<lparr>r_enemies := r_enemies ra @ [tw1]\<rparr>, r3)
              else (ra, r)
         else (rf1, r))"

definition reefWaves :: "real \<Rightarrow> reefZone \<Rightarrow> reefZone" where
  "reefWaves dt rf =
     (let rf1 = rf\<lparr>waveTimer := waveTimer rf + dt\<rparr>;
          rf2 = (if waveTimer rf1 \<ge> 5
                 then rf1\<lparr>waveTimer := 0, waveComplexity := min (waveComplexity rf1 + 1) 4\<rparr>
                 else rf1)
      in rf2\<lparr>wavePhase := wavePhase rf2 + dt\<rparr>)"

definition updateReef ::
  "real \<Rightarrow> player \<Rightarrow> real \<Rightarrow> safeZone \<Rightarrow> rng \<Rightarrow> reefZone \<Rightarrow> reefZone \<times> player \<times> rng" where
  "updateReef dt player sm sz r rf =
     (let (rf1, r1) = reefMultiply dt sm r rf;
          rf2 = reefWaves dt rf1;
          ticked = tickEffects (r_enemies rf2) dt;
          n = length (filter (\<lambda>e. alive e \<and> \<not> frozen e) ticked);
          swum = waveLoop dt (wavePhase rf2) (waveComplexity rf2) n 0 ticked;
          (obs, p1, es) = bouncersLoop dt (r_obstacles rf2) player swum;
          egg = reefEggStep dt p1 (r_egg rf2)
      in (rf2\<lparr>r_enemies := blockFromSafeZone sz es, r_obstacles := obs, r_egg := egg\<rparr>, p1, r1))"

section \<open>Initialization\<close>

definition resetState :: "int \<Rightarrow> state" where
  "resetState lvl =
     \<lparr>level = lvl,
      speedMult = (5 / 4) powr real_of_int (lvl - 1),
      time = 0,
      playerMoved = False,
      prevPX = None, prevPY = None,
      prevAbilityCooldown = 0,
      safeZone = \<lparr>sz_x = CENTER_X, sz_y = CENTER_Y, sz_radius = 120, uses = 0, maxUses = 3,
                  active = True, playerWasInside = False\<rparr>,
      volcanic = \<lparr>v_enemies = [], lavaTrails = [], geysers = [], speedTimer = 0, v_visualPhase = 0,
                  v_egg = \<lparr>egg_x = 250, egg_y = 250, collected = False\<rparr>\<rparr>,
      glacial = \<lparr>g_enemies = [], frozenTiles = [], iceBullets = [], bulletCooldown = 0,
                 g_egg = \<lparr>egg_x = 1800, egg_y = 250, collected = False,
                          thawTimer = 0, thawRequired = 2\<rparr>\<rparr>,
      canopy = \<lparr>c_enemies = [], c_obstacles = [], c_multiplyTimer = 0, teleportTimer = 0,
                c_teleportRange = 150, escalateTimer = 0, escalateWave = 0, c_visualPhase = 0,
                c_egg = \<lparr>egg_x = 0, egg_y = 0, collected = False,
                         egg_visible = False, egg_host = None\<rparr>\<rparr>,
      reef = \<lparr>r_enemies = [], r_obstacles = [], r_multiplyTimer = 0, waveTimer = 0,
              waveComplexity = 0, wavePhase = 0, r_visualPhase = 0,
              r_egg = \<lparr>egg_x = 0, egg_y = 0, collected = False, egg_vx = 0, egg_vy = 0\<rparr>\<rparr>\<rparr>"

fun initGeysers :: "(real \<times> real) list \<Rightarrow> rng \<Rightarrow> geyser list \<times> rng" where
  "initGeysers [] r = ([], r)"
| "initGeysers (pos # rest) r =
     (let z = ZONES_volcanic;
          (u, r1) = random r;
          g = \<lparr>gy_x = z_x z + fst pos, gy_y = z_y z + snd pos, gy_radius = 28,
               timer = u * 5, erupting = False, eruptDur = 3 / 2\<rparr>;
          (gs, r2) = initGeysers rest r1
      in (g # gs, r2))"

definition initVolcanic :: "rng \<Rightarrow> state \<Rightarrow> state \<times> rng" where
  "initVolcanic r s =
     (let z = ZONES_volcanic;
          v = volcanic s;
          v1 = v\<lparr>v_enemies := v_enemies v
                    @ [makeMagmawyrm (speedMult s) (z_x z + z_w z / 2) (z_y z + z_h z / 2) None None]\<rparr>;
          (gs, r1) = initGeysers [(200, 200), (700, 200), (450, 450), (200, 700), (700, 700)] r
      in (s\<lparr>volcanic := v1\<lparr>geysers := geysers v1 @ gs\<rparr>\<rparr>, r1))"

definition initGlacial :: "state \<Rightarrow> state" where
  "initGlacial s =
     (let z = ZONES_glacial;
          g = glacial s;
          fw = makeFrostwyrm (speedMult s) (z_x z + z_w z / 2) (z_y z + z_h z / 2);
          seed = map (\<lambda>i. let ang = (real i / 6) * pi * 2
                           in \<lparr>t_x = e_x fw + cos ang * 50 - 20, t_y = e_y fw + sin ang * 50 - 20,
                               t_w = 40, t_h = 40\<rparr>) [0..<6]
      in s\<lparr>glacial := g\<lparr>g_enemies := g_enemies g @ [fw], frozenTiles := frozenTiles g @ seed\<rparr>\<rparr>)"

definition initCanopy :: "rng \<Rightarrow> state \<Rightarrow> state \<times> rng" where
  "initCanopy r s =
     (let (c1, r1) = spawnThornwyrm (speedMult s) (playerMoved s) r (canopy s);
          (c2, r2) = spawnThornwyrm (speedMult s) (playerMoved s) r1 c1;
          (obs, r3) = addCanopyObstacles 5 (c_obstacles c2) r2;
          c3 = c2\<lparr>c_obstacles := obs\<rparr>;
          (egg, r4) = assignCanopyEgg (c_obstacles c3) r3 (c_egg c3)
      in (s\<lparr>canopy := c3\<lparr>c_egg := egg\<rparr>\<rparr>, r4))"

fun initTidewyrms :: "real \<Rightarrow> nat list \<Rightarrow> rng \<Rightarrow> tidewyrm list \<times> rng" where
  "initTidewyrms sm [] r = ([], r)"
| "initTidewyrms sm (i # rest) r =
     (let z = ZONES_reef;
          (u, r1) = random r;
          (v, r2) = random r1;
          tw = makeTidewyrm sm (z_x z + 200 + u * (z_w z - 400)) (z_y z + 200 + v * (z_h z - 400))
                 (Some ((real i / 3) * pi * 2));
          (tws, r3) = initTidewyrms sm rest r2
      in (tw # tws, r3))"

fun initBouncers :: "nat \<Rightarrow> rng \<Rightarrow> bouncer list \<times> rng" where
  "initBouncers 0 r = ([], r)"
| "initBouncers (Suc n) r =
     (let z = ZONES_reef;
          (a, r1) = random r;
          ang = a * pi * 2;
          (u, r2) = random r1;
          (v, r3) = random r2;
          obs = \<lparr>bo_x = z_x z + 120 + u * (z_w z - 240), bo_y = z_y z + 120 + v * (z_h z - 240),
                 bo_vx = cos ang * 80, bo_vy = sin ang * 80, bo_r = 28\<rparr>;
          (rest, r4) = initBouncers n r3
      in (obs # rest, r4))"

definition initReef :: "rng \<Rightarrow> state \<Rightarrow> state \<times> rng" where
  "initReef r s =
     (let z = ZONES_reef;
          rf = reef s;
          (tws, r1) = initTidewyrms (speedMult s) [0, 1, 2] r;
          (obs, r2) = initBouncers 4 r1;
          (a, r3) = random r2;
          ea = a * pi * 2;
          (u, r4) = random r3;
          (v, r5) = random r4;
          egg = \<lparr>egg_x = z_x z + 200 + u * (z_w z - 400), egg_y = z_y z + 200 + v * (z_h z - 400),
                 collected = False, egg_vx = cos ea * 45, egg_vy = sin ea * 45\<rparr>
      in (s\<lparr>reef := rf\<lparr>r_enemies := r_enemies rf @ tws, r_obstacles := r_obstacles rf @ obs,
                        r_egg := egg\<rparr>\<rparr>, r5))"

definition init :: "int \<Rightarrow> rng \<Rightarrow> state \<times> rng" where
  "init lvl r =
     (let s0 = resetState lvl;
          (s1, r1) = initVolcanic r s0;
          s2 = initGlacial s1;
          (s3, r3) = initCanopy r1 s2
      in initReef r3 s3)"

section \<open>The frame\<close>

definition unfreezeAll :: "state \<Rightarrow> state" where
  "unfreezeAll s =
     s\<lparr>volcanic := (volcanic s)\<lparr>v_enemies := map (\<lambda>e. e\<lparr>frozen := False\<rparr>) (v_enemies (volcanic s))\<rparr>,
       glacial := (glacial s)\<lparr>g_enemies := map (\<lambda>e. e\<lparr>frozen := False\<rparr>) (g_enemies (glacial s))\<rparr>,
       canopy := (canopy s)\<lparr>c_enemies := map (\<lambda>e. e\<lparr>frozen := False\<rparr>) (c_enemies (canopy s))\<rparr>,
       reef := (reef s)\<lparr>r_enemies := map (\<lambda>e. e\<lparr>frozen := False\<rparr>) (r_enemies (reef s))\<rparr>\<rparr>"

text \<open>The detection of the player's first movement, at the head of \<^verbatim>\<open>update\<close>.\<close>

definition detectMove :: "player \<Rightarrow> state \<Rightarrow> state" where
  "detectMove p s =
     (if \<not> playerMoved s
      then
        let s1 = (if prevPX s \<noteq> None \<and> (Some (p_x p) \<noteq> prevPX s \<or> Some (p_y p) \<noteq> prevPY s)
                  then unfreezeAll (s\<lparr>playerMoved := True\<rparr>) else s)
        in s1\<lparr>prevPX := Some (p_x p), prevPY := Some (p_y p)\<rparr>
      else s)"

text \<open>The four zone simulators, in their fixed order; the player goes from one to the next.\<close>

definition updateZones :: "real \<Rightarrow> player \<Rightarrow> bool \<Rightarrow> rng \<Rightarrow> state \<Rightarrow> state \<times> player \<times> rng" where
  "updateZones dt p used r s =
     (let (v, p1, r1) = updateVolcanic dt p used (speedMult s) (safeZone s) r (volcanic s);
          (g, p2, r2) = updateGlacial dt p1 (safeZone s) r1 (glacial s);
          (c, p3, r3) = updateCanopy dt p2 (speedMult s) (playerMoved s) (safeZone s) r2 (canopy s);
          (rf, p4, r4) = updateReef dt p3 (speedMult s) (safeZone s) r3 (reef s)
      in (s\<lparr>volcanic := v, glacial := g, canopy := c, reef := rf\<rparr>, p4, r4))"

definition advancePhases :: "real \<Rightarrow> state \<Rightarrow> state" where
  "advancePhases dt s =
     s\<lparr>volcanic := (volcanic s)\<lparr>v_visualPhase := v_visualPhase (volcanic s) + dt * 8\<rparr>,
       reef := (reef s)\<lparr>r_visualPhase := r_visualPhase (reef s) + dt * (3 / 2)\<rparr>,
       canopy := (canopy s)\<lparr>c_visualPhase := c_visualPhase (canopy s) + dt * 3\<rparr>\<rparr>"

text \<open>
  \<^verbatim>\<open>update(dt, player)\<close>: the state and the player are changed in place in the source,
  and returned here, with what is left of the random numbers.
\<close>

definition abilityJustUsed :: "player \<Rightarrow> state \<Rightarrow> bool" where
  "abilityJustUsed p s = (prevAbilityCooldown s = 0 \<and> abilityCooldown p > 0)"

definition update :: "real \<Rightarrow> player \<Rightarrow> rng \<Rightarrow> state \<Rightarrow> state \<times> player \<times> rng" where
  "update dt p r s =
     (let s1 = s\<lparr>time := time s + dt\<rparr>;
          s2 = detectMove p s1;
          used = abilityJustUsed p s2;
          s3 = s2\<lparr>prevAbilityCooldown := abilityCooldown p\<rparr>;
          s4 = s3\<lparr>safeZone := updateSafeZone p (safeZone s3)\<rparr>;
          (s5, p5, r5) = (if playerMoved s4 then updateZones dt p used r s4 else (s4, p, r))
      in (advancePhases dt s5, p5, r5))"

text \<open>A run of frames: each frame brings its \<open>dt\<close> and the player as the game hands it over.\<close>

fun run :: "state \<times> rng \<Rightarrow> (real \<times> player) list \<Rightarrow> state \<times> rng" where
  "run sr [] = sr"
| "run sr (f # fs) =
     (let (s', p', r') = update (fst f) (snd f) (snd sr) (fst sr) in run (s', r') fs)"

section \<open>States and players of the examples\<close>

text \<open>
  The state after \<^verbatim>\<open>init(1)\<close> when every call of \<^verbatim>\<open>Math.random()\<close> returns 0, and a
  random source that always returns one half.
\<close>

definition zeros :: rng where
  "zeros = (\<lambda>_. 0)"

definition halves :: rng where
  "halves = (\<lambda>_. 1 / 2)"

definition fresh :: state where
  "fresh = fst (init 1 zeros)"

text \<open>The player of \<^verbatim>\<open>src/player.js\<close>, with radius 12, at a position and with a cooldown.\<close>

definition playerAt :: "real \<Rightarrow> real \<Rightarrow> real \<Rightarrow> player" where
  "playerAt x y cooldown =
     \<lparr>p_x = x, p_y = y, p_radius = 12, abilityCooldown = cooldown, p_activeEffects = []\<rparr>"


text \<open>Frames that take the player into the safe zone and out of it, three times.\<close>

definition inAndOut :: "(real \<times> player) list" where
  "inAndOut =
     [(1 / 60, playerAt 1000 1000 0), (1 / 60, playerAt 500 1000 0),
      (1 / 60, playerAt 1000 1000 0), (1 / 60, playerAt 500 1000 0),
      (1 / 60, playerAt 1000 1000 0)]"

text \<open>
  The state after the ability of \<^verbatim>\<open>src/player.js\<close> that pulls every enemy onto the
  player and freezes it for five seconds, used at the center of the map: a Magmawyrm
  stands on the center of the safe zone.
\<close>

definition frozenEffect :: effect where
  "frozenEffect = \<lparr>eff_type = ''freeze'', eff_duration = Finite 5, eff_multiplier = 1\<rparr>"

definition pulled :: state where
  "pulled = fresh\<lparr>playerMoved := True,
                  volcanic := (volcanic fresh)\<lparr>v_enemies :=
                    [(makeMagmawyrm 1 1000 1000 None None)\<lparr>frozen := False, activeEffects := [frozenEffect]\<rparr>]\<rparr>\<rparr>"

text \<open>The fresh level after a first frame with the player at the center.\<close>

definition firstFrame :: state where
  "firstFrame = fst (update (1 / 60) (playerAt 1000 1000 0) zeros fresh)"

text \<open>The fresh level with its four eggs collected and the player on the move.\<close>

definition hatched :: state where
  "hatched = fresh\<lparr>playerMoved := True,
       volcanic := (volcanic fresh)\<lparr>v_egg := (v_egg (volcanic fresh))\<lparr>collected := True\<rparr>\<rparr>,
       glacial := (glacial fresh)\<lparr>g_egg := (g_egg (glacial fresh))\<lparr>collected := True\<rparr>\<rparr>,
       canopy := (canopy fresh)\<lparr>c_egg := (c_egg (canopy fresh))\<lparr>collected := True\<rparr>\<rparr>,
       reef := (reef fresh)\<lparr>r_egg := (r_egg (reef fresh))\<lparr>collected := True\<rparr>\<rparr>\<rparr>"



section \<open>Invariants of a level\<close>

text \<open>
  What the proofs carry along the frames of a level. A Magmawyrm has one of three
  sizes, 1, 0.6 and 0.36; an alive one weighs 4, 2 or 1, so that a split keeps the
  weight of the zone, and the zone of \<^verbatim>\<open>init\<close> weighs 4. \<open>capped\<close> is that bound for
  the Volcanic zone together with the cap of \<^verbatim>\<open>MAX_PER_ZONE\<close> for the other three, and
  \<open>awake\<close> says that no Magmawyrm is frozen once the player has moved.
\<close>

definition weight :: "magmawyrm \<Rightarrow> nat" where
  "weight e = (if \<not> alive e then 0 else if sizeMult e = 1 then 4 else if sizeMult e = 3 / 5 then 2 else 1)"

definition sized :: "magmawyrm \<Rightarrow> bool" where
  "sized e = (sizeMult e = 1 \<or> sizeMult e = 3 / 5 \<or> sizeMult e = 9 / 25)"

definition brood :: "magmawyrm list \<Rightarrow> bool" where
  "brood es = ((\<forall>e \<in> set es. sized e) \<and> sum_list (map weight es) \<le> 4)"

definition capped :: "state \<Rightarrow> bool" where
  "capped s =
     (brood (v_enemies (volcanic s))
      \<and> aliveCount (g_enemies (glacial s)) \<le> MAX_PER_ZONE
      \<and> aliveCount (c_enemies (canopy s)) \<le> MAX_PER_ZONE
      \<and> aliveCount (r_enemies (reef s)) \<le> MAX_PER_ZONE)"


section \<open>Facts about the helpers\<close>

lemma hyp_nonneg [simp]: "0 \<le> hyp a b"
  by (simp add: hyp_def)

lemma hyp_eq_0_iff [simp]: "hyp a b = 0 \<longleftrightarrow> a = 0 \<and> b = 0"
  by (simp add: hyp_def sum_squares_eq_zero_iff)

lemma hyp_axis [simp]: "hyp a 0 = \<bar>a\<bar>" "hyp 0 b = \<bar>b\<bar>"
  by (simp_all add: hyp_def)

lemma hyp_le_iff: "0 \<le> c \<Longrightarrow> hyp a b \<le> c \<longleftrightarrow> a * a + b * b \<le> c * c"
  unfolding hyp_def by (metis real_sqrt_le_iff real_sqrt_abs2 abs_of_nonneg)

lemma hyp_less_iff: "0 \<le> c \<Longrightarrow> hyp a b < c \<longleftrightarrow> a * a + b * b < c * c"
  unfolding hyp_def by (metis real_sqrt_less_iff real_sqrt_abs2 abs_of_nonneg)

lemma hyp_gt_iff: "0 \<le> c \<Longrightarrow> c < hyp a b \<longleftrightarrow> c * c < a * a + b * b"
  unfolding hyp_def by (metis real_sqrt_less_iff real_sqrt_abs2 abs_of_nonneg)

lemmas hyp_eval = hyp_le_iff hyp_less_iff hyp_gt_iff

lemma random_zeros [simp]: "random zeros = (0, zeros)"
  by (simp add: random_def zeros_def)

lemma random_halves [simp]: "random halves = (1 / 2, halves)"
  by (simp add: random_def halves_def)

subsection \<open>What a frame does to which part of the state\<close>

lemma detectMove_keeps [simp]:
  "safeZone (detectMove p s) = safeZone s"
  "speedMult (detectMove p s) = speedMult s"
  "prevAbilityCooldown (detectMove p s) = prevAbilityCooldown s"
  "time (detectMove p s) = time s"
  "level (detectMove p s) = level s"
  by (simp_all add: detectMove_def unfreezeAll_def Let_def)

lemma detectMove_time: "detectMove p (s\<lparr>time := t\<rparr>) = (detectMove p s)\<lparr>time := t\<rparr>"
  by (simp add: detectMove_def unfreezeAll_def Let_def)

lemma detectMove_moved: "playerMoved s \<Longrightarrow> detectMove p s = s"
  by (simp add: detectMove_def)

lemma update_unfold:
  "update dt p r s =
     (let s2 = detectMove p s;
          s4 = s2\<lparr>time := time s + dt, prevAbilityCooldown := abilityCooldown p,
                  safeZone := updateSafeZone p (safeZone s)\<rparr>
      in if playerMoved s2
         then (let (s5, p5, r5) = updateZones dt p (abilityJustUsed p s) r s4
               in (advancePhases dt s5, p5, r5))
         else (advancePhases dt s4, p, r))"
  by (simp add: update_def detectMove_time abilityJustUsed_def Let_def)

lemma update_volcanic:
  "playerMoved (detectMove p s) \<Longrightarrow>
   v_enemies (volcanic (fst (update dt p r s))) =
   v_enemies (fst (updateVolcanic dt p (abilityJustUsed p s) (speedMult s)
                 (updateSafeZone p (safeZone s)) r (volcanic (detectMove p s))))"
  by (simp add: update_unfold updateZones_def advancePhases_def Let_def split_beta)

lemma updateZones_safeZone [simp]: "safeZone (fst (updateZones dt p used r s)) = safeZone s"
  by (simp add: updateZones_def Let_def split_beta)

lemma advancePhases_safeZone [simp]: "safeZone (advancePhases dt s) = safeZone s"
  by (simp add: advancePhases_def)

lemma update_safeZone: "safeZone (fst (update dt p r s)) = updateSafeZone p (safeZone s)"
  by (simp add: update_unfold Let_def split_beta)

lemma run_snoc:
  "run sr (fs @ [f]) =
     (let sr' = run sr fs; u = update (fst f) (snd f) (snd sr') (fst sr') in (fst u, snd (snd u)))"
  by (induction fs arbitrary: sr) (simp_all add: Let_def split_beta)

lemma run_append: "run sr (fs @ gs) = run (run sr fs) gs"
  by (induction fs arbitrary: sr) (simp_all add: Let_def split_beta)

lemma run_safeZone:
  "safeZone (fst (run sr fs)) = foldl (\<lambda>z f. updateSafeZone (snd f) z) (safeZone (fst sr)) fs"
  by (induction fs arbitrary: sr) (simp_all add: Let_def split_beta update_safeZone)

lemma updateZones_keeps [simp]:
  "playerMoved (fst (updateZones dt p used r s)) = playerMoved s"
  "prevPX (fst (updateZones dt p used r s)) = prevPX s"
  "prevPY (fst (updateZones dt p used r s)) = prevPY s"
  by (simp_all add: updateZones_def Let_def split_beta)

lemma advancePhases_keeps [simp]:
  "playerMoved (advancePhases dt s) = playerMoved s"
  "glacial (advancePhases dt s) = glacial s"
  "v_enemies (volcanic (advancePhases dt s)) = v_enemies (volcanic s)"
  "geysers (volcanic (advancePhases dt s)) = geysers (volcanic s)"
  "lavaTrails (volcanic (advancePhases dt s)) = lavaTrails (volcanic s)"
  "c_enemies (canopy (advancePhases dt s)) = c_enemies (canopy s)"
  "c_egg (canopy (advancePhases dt s)) = c_egg (canopy s)"
  "r_enemies (reef (advancePhases dt s)) = r_enemies (reef s)"
  "r_egg (reef (advancePhases dt s)) = r_egg (reef s)"
  "v_egg (volcanic (advancePhases dt s)) = v_egg (volcanic s)"
  by (simp_all add: advancePhases_def)

lemma update_playerMoved: "playerMoved (fst (update dt p r s)) = playerMoved (detectMove p s)"
  by (simp add: update_unfold Let_def split_beta)

lemma detectMove_still:
  "\<not> playerMoved (detectMove p s) \<Longrightarrow> detectMove p s = s\<lparr>prevPX := Some (p_x p), prevPY := Some (p_y p)\<rparr>"
  by (auto simp: detectMove_def Let_def unfreezeAll_def split: if_splits)

lemma update_glacial:
  "playerMoved (detectMove p s) \<Longrightarrow>
   glacial (fst (update dt p r s)) =
     (let vr = updateVolcanic dt p (abilityJustUsed p s) (speedMult s)
                 (updateSafeZone p (safeZone s)) r (volcanic (detectMove p s))
      in fst (updateGlacial dt (fst (snd vr)) (updateSafeZone p (safeZone s)) (snd (snd vr))
                (glacial (detectMove p s))))"
  by (simp add: update_unfold updateZones_def advancePhases_def Let_def split_beta)

lemma update_still:
  assumes "\<not> playerMoved (detectMove p s)"
  shows "volcanic (fst (update dt p r s)) = (volcanic s)\<lparr>v_visualPhase := v_visualPhase (volcanic s) + dt * 8\<rparr>"
    and "glacial (fst (update dt p r s)) = glacial s"
    and "canopy (fst (update dt p r s)) = (canopy s)\<lparr>c_visualPhase := c_visualPhase (canopy s) + dt * 3\<rparr>"
    and "reef (fst (update dt p r s)) = (reef s)\<lparr>r_visualPhase := r_visualPhase (reef s) + dt * (3 / 2)\<rparr>"
    and "snd (update dt p r s) = (p, r)"
    and "prevPX (fst (update dt p r s)) = Some (p_x p)"
    and "prevPY (fst (update dt p r s)) = Some (p_y p)"
    and "prevAbilityCooldown (fst (update dt p r s)) = abilityCooldown p"
    and "speedMult (fst (update dt p r s)) = speedMult s"
proof -
  have "\<not> playerMoved s"
    using assms by (auto simp: detectMove_moved)
  then show "volcanic (fst (update dt p r s)) = (volcanic s)\<lparr>v_visualPhase := v_visualPhase (volcanic s) + dt * 8\<rparr>"
    and "glacial (fst (update dt p r s)) = glacial s"
    and "canopy (fst (update dt p r s)) = (canopy s)\<lparr>c_visualPhase := c_visualPhase (canopy s) + dt * 3\<rparr>"
    and "reef (fst (update dt p r s)) = (reef s)\<lparr>r_visualPhase := r_visualPhase (reef s) + dt * (3 / 2)\<rparr>"
    and "snd (update dt p r s) = (p, r)"
    and "prevPX (fst (update dt p r s)) = Some (p_x p)"
    and "prevPY (fst (update dt p r s)) = Some (p_y p)"
    and "prevAbilityCooldown (fst (update dt p r s)) = abilityCooldown p"
    and "speedMult (fst (update dt p r s)) = speedMult s"
    by (simp_all add: update_unfold Let_def detectMove_still [OF assms] advancePhases_def)
qed

lemma updateGlacial_bullets:
  "iceBullets (fst (updateGlacial dt p sz r g)) =
     filter b_alive (fst (bulletsLoop dt
       (fst (snd (snd (frostLoop dt p (tickEffects (g_enemies g) dt) (frozenTiles g) (iceBullets g)
                         (bulletCooldown g) r)))) p))"
  by (simp add: updateGlacial_def Let_def split_beta)

lemma detectMove_first_move:
  "\<not> playerMoved s \<Longrightarrow> prevPX s = Some x \<Longrightarrow> p_x p \<noteq> x \<Longrightarrow>
     playerMoved (detectMove p s) \<and>
     volcanic (detectMove p s) = (volcanic s)\<lparr>v_enemies := map (\<lambda>e. e\<lparr>frozen := False\<rparr>) (v_enemies (volcanic s))\<rparr>
     \<and> glacial (detectMove p s) = (glacial s)\<lparr>g_enemies := map (\<lambda>e. e\<lparr>frozen := False\<rparr>) (g_enemies (glacial s))\<rparr>"
  by (simp add: detectMove_def unfreezeAll_def Let_def)

subsection \<open>The state after \<^verbatim>\<open>init\<close>\<close>

lemma init_safeZone: "safeZone (fst (init lvl r)) = safeZone (resetState lvl)"
  by (simp add: init_def initReef_def initCanopy_def initGlacial_def initVolcanic_def Let_def split_beta)

lemma init_volcanic: "volcanic (fst (init lvl r)) = volcanic (fst (initVolcanic r (resetState lvl)))"
  by (simp add: init_def initReef_def initCanopy_def initGlacial_def Let_def split_beta)

lemma init_flags:
  "playerMoved (fst (init lvl r)) = False"
  "prevAbilityCooldown (fst (init lvl r)) = 0"
  "prevPX (fst (init lvl r)) = None"
  "speedMult (fst (init lvl r)) = (5 / 4) powr real_of_int (lvl - 1)"
  by (simp_all add: init_def initReef_def initCanopy_def initGlacial_def initVolcanic_def
      Let_def split_beta resetState_def)

lemma fresh_volcanic:
  "volcanic fresh =
     \<lparr>v_enemies = [makeMagmawyrm 1 500 500 None None], lavaTrails = [],
      geysers = map (\<lambda>(x, y). \<lparr>gy_x = x, gy_y = y, gy_radius = 28, timer = 0, erupting = False,
                                eruptDur = 3 / 2\<rparr>)
                  [(250, 250), (750, 250), (500, 500), (250, 750), (750, 750)],
      speedTimer = 0, v_visualPhase = 0,
      v_egg = \<lparr>egg_x = 250, egg_y = 250, collected = False\<rparr>\<rparr>"
  by (simp add: fresh_def init_volcanic initVolcanic_def resetState_def Let_def split_beta
      ZONES_volcanic_def)

lemma fresh_safeZone:
  "safeZone fresh =
     \<lparr>sz_x = 1000, sz_y = 1000, sz_radius = 120, uses = 0, maxUses = 3, active = True,
      playerWasInside = False\<rparr>"
  by (simp add: fresh_def init_safeZone resetState_def CENTER_X_def CENTER_Y_def)

lemma fresh_flags:
  "playerMoved fresh = False" "prevAbilityCooldown fresh = 0" "prevPX fresh = None"
  "speedMult fresh = 1"
  by (simp_all add: fresh_def init_flags)

lemma fresh_glacial:
  "g_enemies (glacial fresh) = [makeFrostwyrm 1 1500 500]"
  "iceBullets (glacial fresh) = []"
  "bulletCooldown (glacial fresh) = 0"
  by (simp_all add: fresh_def init_def initReef_def initCanopy_def initGlacial_def initVolcanic_def
      Let_def split_beta resetState_def ZONES_glacial_def)

subsection \<open>The safe zone\<close>

lemma updateSafeZone_shrinks:
  "0 < sz_radius sz \<Longrightarrow>
     sz_radius (updateSafeZone p sz) \<le> sz_radius sz \<and> 0 < sz_radius (updateSafeZone p sz)"
  by (simp add: updateSafeZone_def Let_def)

lemma updateSafeZone_stays_off: "\<not> active sz \<Longrightarrow> \<not> active (updateSafeZone p sz)"
  by (simp add: updateSafeZone_def)

lemma fold_positive:
  "0 < sz_radius sz \<Longrightarrow> 0 < sz_radius (foldl (\<lambda>z f. updateSafeZone (snd f) z) sz fs)"
  by (induction fs arbitrary: sz) (simp_all add: updateSafeZone_shrinks)

lemma fold_stays_off:
  "\<not> active sz \<Longrightarrow> \<not> active (foldl (\<lambda>z f. updateSafeZone (snd f) z) sz fs)"
  by (induction fs arbitrary: sz) (simp_all add: updateSafeZone_stays_off)

lemma inAndOut_safeZone:
  "foldl (\<lambda>z f. updateSafeZone (snd f) z) (safeZone fresh) inAndOut =
     \<lparr>sz_x = 1000, sz_y = 1000, sz_radius = 1536 / 25, uses = 3, maxUses = 3, active = False,
      playerWasInside = True\<rparr>"
  by (simp add: fresh_safeZone inAndOut_def playerAt_def updateSafeZone_def inside_def Let_def hyp_eval)

subsection \<open>The Glacial zone\<close>

lemma hyp_square: "hyp a b * hyp a b = a * a + b * b"
  by (simp add: hyp_def)

lemma aim_speed:
  assumes "0 < hyp a b"
  shows "(a / hyp a b * 210) * (a / hyp a b * 210) + (b / hyp a b * 210) * (b / hyp a b * 210) = 210 * 210"
proof -
  have "(a / hyp a b * 210) * (a / hyp a b * 210) + (b / hyp a b * 210) * (b / hyp a b * 210)
      = (a * a + b * b) / (hyp a b * hyp a b) * (210 * 210)"
    by (simp add: add_divide_distrib distrib_right mult.commute)
  also have "\<dots> = (hyp a b * hyp a b) / (hyp a b * hyp a b) * (210 * 210)"
    by (simp only: hyp_square)
  also have "\<dots> = 210 * 210"
  proof -
    have "hyp a b \<noteq> 0"
      using assms by linarith
    then have "(hyp a b * hyp a b) / (hyp a b * hyp a b) = 1"
      by (intro divide_self) (simp only: mult_eq_0_iff, simp)
    then show ?thesis
      by (simp only: mult_1)
  qed
  finally show ?thesis .
qed

lemma bulletStep_place:
  "p_x (snd (bulletStep dt b p)) = p_x p"
  "p_y (snd (bulletStep dt b p)) = p_y p"
  "p_radius (snd (bulletStep dt b p)) = p_radius p"
  by (simp_all add: bulletStep_def Let_def)

lemma touches_place:
  "p_x q = p_x p \<Longrightarrow> p_y q = p_y p \<Longrightarrow> p_radius q = p_radius p \<Longrightarrow> touches q b = touches p b"
  by (simp add: touches_def)

lemma outOfBounds_alive [simp]: "outOfBounds (b\<lparr>b_alive := a\<rparr>) = outOfBounds b"
  by (simp add: outOfBounds_def)

lemma moveBullet_alive [simp]: "b_alive (moveBullet dt b) = b_alive b"
  by (simp add: moveBullet_def Let_def)

lemma bulletsLoop_survivors:
  "p_x q = p_x p \<Longrightarrow> p_y q = p_y p \<Longrightarrow> p_radius q = p_radius p \<Longrightarrow>
   filter b_alive (fst (bulletsLoop dt bs q)) =
     filter (\<lambda>b. \<not> touches p b \<and> \<not> outOfBounds b) (map (moveBullet dt) (filter b_alive bs))"
proof (induction bs arbitrary: q)
  case Nil
  then show ?case by simp
next
  case (Cons b bs)
  have same: "touches q (moveBullet dt b) = touches p (moveBullet dt b)"
    using Cons.prems by (rule touches_place)
  have IH: "filter b_alive (fst (bulletsLoop dt bs (snd (bulletStep dt b q)))) =
     filter (\<lambda>b. \<not> touches p b \<and> \<not> outOfBounds b) (map (moveBullet dt) (filter b_alive bs))"
    using Cons.prems by (intro Cons.IH) (simp_all add: bulletStep_place)
  show ?case
    by (simp add: split_beta IH) (simp add: bulletStep_def Let_def same)
qed

lemma bulletsLoop_effects:
  "p_x q = p_x p \<Longrightarrow> p_y q = p_y p \<Longrightarrow> p_radius q = p_radius p \<Longrightarrow>
   p_activeEffects (snd (bulletsLoop dt bs q)) =
     p_activeEffects q
       @ replicate (length (filter (touches p) (map (moveBullet dt) (filter b_alive bs)))) deadEffect"
proof (induction bs arbitrary: q)
  case Nil
  then show ?case by simp
next
  case (Cons b bs)
  have same: "touches q (moveBullet dt b) = touches p (moveBullet dt b)"
    using Cons.prems by (rule touches_place)
  have IH: "p_activeEffects (snd (bulletsLoop dt bs (snd (bulletStep dt b q)))) =
     p_activeEffects (snd (bulletStep dt b q))
       @ replicate (length (filter (touches p) (map (moveBullet dt) (filter b_alive bs)))) deadEffect"
    using Cons.prems by (intro Cons.IH) (simp_all add: bulletStep_place)
  show ?case
    by (simp add: split_beta IH) (simp add: bulletStep_def Let_def same replicate_app_Cons_same)
qed

lemma tilePush_effects [simp]: "p_activeEffects (tilePush t p) = p_activeEffects p"
  by (simp add: tilePush_def Let_def)

lemma tiles_effects [simp]: "p_activeEffects (foldl (\<lambda>p t. tilePush t p) p tiles) = p_activeEffects p"
  by (induction tiles arbitrary: p) simp_all

lemma updateGlacial_cooldown:
  "bulletCooldown (fst (updateGlacial dt p sz r g)) =
     fst (snd (snd (snd (frostLoop dt p (tickEffects (g_enemies g) dt) (frozenTiles g) (iceBullets g)
                         (bulletCooldown g) r))))"
  by (simp add: updateGlacial_def Let_def split_beta)

lemma updateGlacial_effects:
  "p_activeEffects (fst (snd (updateGlacial dt p sz r g))) =
     p_activeEffects (snd (bulletsLoop dt
       (fst (snd (snd (frostLoop dt p (tickEffects (g_enemies g) dt) (frozenTiles g) (iceBullets g)
                         (bulletCooldown g) r)))) p))"
  by (simp add: updateGlacial_def Let_def split_beta)

subsection \<open>The eggs\<close>

lemma unit_rng_random:
  "unit_rng r \<Longrightarrow> 0 \<le> fst (random r) \<and> fst (random r) < 1 \<and> unit_rng (snd (random r))"
  by (simp add: unit_rng_def random_def)

lemma unit_rng_zeros: "unit_rng zeros"
  by (simp add: unit_rng_def zeros_def)

lemma unit_rng_initGeysers: "unit_rng r \<Longrightarrow> unit_rng (snd (initGeysers ps r))"
  by (induction ps arbitrary: r) (simp_all add: Let_def split_beta unit_rng_random)

lemma unit_rng_spawnThornwyrm: "unit_rng r \<Longrightarrow> unit_rng (snd (spawnThornwyrm sm moved r c))"
  by (simp add: spawnThornwyrm_def Let_def split_beta unit_rng_random)

lemma unit_rng_addCanopyObstacles: "unit_rng r \<Longrightarrow> unit_rng (snd (addCanopyObstacles n obs r))"
  by (induction n arbitrary: obs r) (simp_all add: Let_def split_beta unit_rng_random)

lemma length_addCanopyObstacles: "length (fst (addCanopyObstacles n obs r)) = length obs + n"
  by (induction n arbitrary: obs r) (simp_all add: Let_def split_beta)

lemma assignCanopyEgg_host:
  assumes "unit_rng r" and "obs \<noteq> []"
  shows "egg_host (fst (assignCanopyEgg obs r egg)) \<noteq> None"
proof -
  let ?u = "fst (random r)"
  have u: "0 \<le> ?u" "?u < 1"
    using assms(1) by (simp_all add: unit_rng_random)
  have n: "0 < real (length obs)"
    using assms(2) by simp
  have "0 \<le> ?u * real (length obs)"
    using u(1) by simp
  then have lo: "0 \<le> \<lfloor>?u * real (length obs)\<rfloor>"
    by simp
  have "?u * real (length obs) < 1 * real (length obs)"
    using u(2) n by (intro mult_strict_right_mono)
  then have hi: "\<lfloor>?u * real (length obs)\<rfloor> < int (length obs)"
    by (simp add: floor_less_iff)
  show ?thesis
    using assms(2) lo hi by (simp add: assignCanopyEgg_def Let_def split_beta)
qed

lemma init_canopy_host:
  assumes "unit_rng r"
  shows "egg_host (c_egg (canopy (fst (init lvl r)))) \<noteq> None"
proof -
  let ?s2 = "initGlacial (fst (initVolcanic r (resetState lvl)))"
  let ?r1 = "snd (initVolcanic r (resetState lvl))"
  have r1: "unit_rng ?r1"
    using assms by (simp add: initVolcanic_def Let_def split_beta unit_rng_initGeysers del: initGeysers.simps)
  let ?sp1 = "spawnThornwyrm (speedMult ?s2) (playerMoved ?s2) ?r1 (canopy ?s2)"
  let ?sp2 = "spawnThornwyrm (speedMult ?s2) (playerMoved ?s2) (snd ?sp1) (fst ?sp1)"
  let ?ob = "addCanopyObstacles 5 (c_obstacles (fst ?sp2)) (snd ?sp2)"
  have r3: "unit_rng (snd ?ob)"
    using r1 by (intro unit_rng_addCanopyObstacles unit_rng_spawnThornwyrm)
  have "length (fst ?ob) = length (c_obstacles (fst ?sp2)) + 5"
    by (rule length_addCanopyObstacles)
  then have ne: "fst ?ob \<noteq> []"
    by auto
  have "c_egg (canopy (fst (init lvl r))) =
        fst (assignCanopyEgg (fst ?ob) (snd ?ob) (c_egg (fst ?sp2)))"
    by (simp add: init_def initReef_def initCanopy_def Let_def split_beta)
  with assignCanopyEgg_host [OF r3 ne] show ?thesis
    by simp
qed

lemma spawnThornwyrm_egg [simp]: "c_egg (fst (spawnThornwyrm sm moved r c)) = c_egg c"
  by (simp add: spawnThornwyrm_def Let_def split_beta)

lemma canopyEggStep_host [simp]: "egg_host (canopyEggStep p obs egg) = egg_host egg"
  by (simp add: canopyEggStep_def Let_def split: option.splits)

lemma eggSteps_collected:
  "collected (gegg :: glacialEgg) \<Longrightarrow> glacialEggStep dt p gegg = gegg"
  "collected (cegg :: canopyEgg) \<Longrightarrow> canopyEggStep p obs cegg = cegg"
  "collected (regg :: reefEgg) \<Longrightarrow> reefEggStep dt p regg = regg"
  by (simp_all add: glacialEggStep_def canopyEggStep_def reefEggStep_def split: option.splits)

lemma updateVolcanic_egg [simp]: "v_egg (fst (updateVolcanic dt p used sm sz r v)) = v_egg v"
  by (simp add: updateVolcanic_def volcanicHazards_def speedBoost_def Let_def split_beta)

lemma updateGlacial_egg: "g_egg (fst (updateGlacial dt p sz r g)) =
    glacialEggStep dt (fst (snd (updateGlacial dt p sz r g))) (g_egg g)"
  by (simp add: updateGlacial_def Let_def split_beta)

lemma reef_stages_egg [simp]:
  "r_egg (fst (reefMultiply dt sm r rf)) = r_egg rf"
  "r_egg (reefWaves dt rf) = r_egg rf"
  by (simp_all add: reefMultiply_def reefWaves_def Let_def split_beta)

lemma updateReef_egg:
  "r_egg (fst (updateReef dt p sm sz r rf)) =
     reefEggStep dt (fst (snd (updateReef dt p sm sz r rf))) (r_egg rf)"
  by (simp add: updateReef_def Let_def split_beta)

lemma canopy_stages_egg [simp]:
  "c_egg (fst (canopyMultiply dt p sm moved r c)) = c_egg c"
  "c_egg (canopyTeleport dt c) = c_egg c"
  "c_egg (fst (canopyJolt dt r c)) = c_egg c"
  "egg_host (c_egg c) \<noteq> None \<Longrightarrow> c_egg (fst (canopyEscalate dt r c)) = c_egg c"
  by (auto simp: canopyMultiply_def canopyTeleport_def canopyJolt_def canopyEscalate_def
      Let_def split_beta)

lemma updateCanopy_egg:
  "egg_host (c_egg c) \<noteq> None \<Longrightarrow>
     \<exists>obs. c_egg (fst (updateCanopy dt p sm moved sz r c)) = canopyEggStep p obs (c_egg c)"
  by (auto simp: updateCanopy_def Let_def split_beta)

lemma detectMove_eggs [simp]:
  "v_egg (volcanic (detectMove p s)) = v_egg (volcanic s)"
  "g_egg (glacial (detectMove p s)) = g_egg (glacial s)"
  "c_egg (canopy (detectMove p s)) = c_egg (canopy s)"
  "r_egg (reef (detectMove p s)) = r_egg (reef s)"
  by (simp_all add: detectMove_def unfreezeAll_def Let_def)

lemma update_eggs:
  "v_egg (volcanic (fst (update dt p r s))) = v_egg (volcanic s)"
  "collected (g_egg (glacial s)) \<Longrightarrow> g_egg (glacial (fst (update dt p r s))) = g_egg (glacial s)"
  "collected (r_egg (reef s)) \<Longrightarrow> r_egg (reef (fst (update dt p r s))) = r_egg (reef s)"
  "egg_host (c_egg (canopy s)) \<noteq> None \<Longrightarrow>
     egg_host (c_egg (canopy (fst (update dt p r s)))) = egg_host (c_egg (canopy s))"
  "egg_host (c_egg (canopy s)) \<noteq> None \<Longrightarrow> collected (c_egg (canopy s)) \<Longrightarrow>
     c_egg (canopy (fst (update dt p r s))) = c_egg (canopy s)"
proof -
  show "v_egg (volcanic (fst (update dt p r s))) = v_egg (volcanic s)"
    by (simp add: update_unfold updateZones_def advancePhases_def Let_def split_beta)
  show "g_egg (glacial (fst (update dt p r s))) = g_egg (glacial s)" if "collected (g_egg (glacial s))"
    using that
    by (simp add: update_unfold updateZones_def advancePhases_def Let_def split_beta
        updateGlacial_egg eggSteps_collected)
  show "r_egg (reef (fst (update dt p r s))) = r_egg (reef s)" if c: "collected (r_egg (reef s))"
  proof (cases "playerMoved (detectMove p s)")
    case False
    then show ?thesis by (simp add: update_still)
  next
    case True
    have "\<exists>q. r_egg (reef (fst (update dt p r s))) = reefEggStep dt q (r_egg (reef s))"
      using True
      by (auto simp: update_unfold updateZones_def advancePhases_def Let_def split_beta updateReef_egg)
    with c show ?thesis by (auto simp: eggSteps_collected)
  qed
  have canopy: "c_egg (canopy (fst (update dt p r s))) = c_egg (canopy s)
      \<or> (\<exists>q obs. c_egg (canopy (fst (update dt p r s))) = canopyEggStep q obs (c_egg (canopy s)))"
    if h: "egg_host (c_egg (canopy s)) \<noteq> None"
  proof (cases "playerMoved (detectMove p s)")
    case False
    then show ?thesis by (simp add: update_still)
  next
    case True
    have "\<exists>obs. c_egg (fst (updateCanopy dt q (speedMult s) True sz r' (canopy (detectMove p s))))
        = canopyEggStep q obs (c_egg (canopy (detectMove p s)))" for q sz r'
      using h by (intro updateCanopy_egg) simp
    then show ?thesis
      using True
      by (simp add: update_unfold updateZones_def advancePhases_def Let_def split_beta) blast
  qed
  show "egg_host (c_egg (canopy (fst (update dt p r s)))) = egg_host (c_egg (canopy s))"
    if "egg_host (c_egg (canopy s)) \<noteq> None"
    using canopy [OF that] by auto
  show "c_egg (canopy (fst (update dt p r s))) = c_egg (canopy s)"
    if "egg_host (c_egg (canopy s)) \<noteq> None" "collected (c_egg (canopy s))"
    using canopy [OF that(1)] that(2) by (auto simp: eggSteps_collected)
qed

lemma run_canopy_host:
  assumes "egg_host (c_egg (canopy (fst sr))) \<noteq> None"
  shows "egg_host (c_egg (canopy (fst (run sr fs)))) \<noteq> None"
  using assms
proof (induction fs arbitrary: sr)
  case Nil
  then show ?case by simp
next
  case (Cons f fs)
  have "egg_host (c_egg (canopy (fst (update (fst f) (snd f) (snd sr) (fst sr))))) \<noteq> None"
    using Cons.prems by (simp add: update_eggs)
  then show ?case
    using Cons.IH [of "(fst (update (fst f) (snd f) (snd sr) (fst sr)),
                        snd (snd (update (fst f) (snd f) (snd sr) (fst sr))))"]
    by (simp add: split_beta Let_def)
qed

subsection \<open>The loop over the Magmawyrms\<close>

lemma chasePlayer_keeps [simp]:
  "alive (chasePlayer e p dt) = alive e"
  "frozen (chasePlayer e p dt) = frozen e"
  "e_radius (chasePlayer e p dt) = e_radius e"
  "activeEffects (chasePlayer e p dt) = activeEffects e"
  "enemy.more (chasePlayer e p dt) = enemy.more e"
  by (simp_all add: chasePlayer_def Let_def)

lemma magmaMove_keeps [simp]:
  "alive (fst (magmaMove dt p e trails)) = alive e"
  "frozen (fst (magmaMove dt p e trails)) = frozen e"
  "sizeMult (fst (magmaMove dt p e trails)) = sizeMult e"
  "speedBoostMult (fst (magmaMove dt p e trails)) = speedBoostMult e"
  by (simp_all add: magmaMove_def Let_def chasePlayer_def)






lemma splitChild_props:
  assumes "sizeMult e \<noteq> 0"
  shows "sizeMult (fst (splitChild sm e r)) = sizeMult e * (3 / 5)"
    and "e_radius (fst (splitChild sm e r)) = 20 * (sizeMult e * (3 / 5))"
    and "baseSpeed (fst (splitChild sm e r)) = 60 * sm * (13 / 10)"
    and "speedBoostMult (fst (splitChild sm e r)) = speedBoostMult e"
    and "speed (fst (splitChild sm e r)) = baseSpeed (fst (splitChild sm e r)) * speedBoostMult (fst (splitChild sm e r))"
    and "alive (fst (splitChild sm e r))"
    and "\<not> frozen (fst (splitChild sm e r))"
  using assms
  by (simp_all add: splitChild_def makeMagmawyrm_def arg_or1_def or1_def Let_def split_beta)


lemma blockFromSafeZone_keeps [simp]:
  "map alive (blockFromSafeZone sz es) = map alive es"
  "map sizeMult (blockFromSafeZone sz ms) = map sizeMult ms"
  by (simp_all add: blockFromSafeZone_def blockOne_def Let_def)

subsection \<open>The cap of the zones\<close>

lemma blockOne_keeps [simp]:
  "alive (blockOne sz e) = alive e" "e_radius (blockOne sz e) = e_radius e"
  by (simp_all add: blockOne_def Let_def)

lemma magmaBody_weight:
  assumes "sized e"
  shows "weight (fst (magmaBody dt p used sm before after e trails ns r))
           + sum_list (map weight (fst (snd (snd (magmaBody dt p used sm before after e trails ns r)))))
         \<le> weight e + sum_list (map weight ns)"
    and "sized (fst (magmaBody dt p used sm before after e trails ns r))"
    and "\<forall>c \<in> set (fst (snd (snd (magmaBody dt p used sm before after e trails ns r)))).
           c \<in> set ns \<or> sized c"
proof -
  let ?e3 = "fst (magmaMove dt p e trails)"
  have e3: "alive ?e3 = alive e" "sizeMult ?e3 = sizeMult e"
    by simp_all
  have kid: "weight (fst (splitChild sm (?e3\<lparr>alive := False\<rparr>) r')) * 2 = weight ?e3
      \<and> sized (fst (splitChild sm (?e3\<lparr>alive := False\<rparr>) r'))"
    if "splits p ?e3" "alive e" for r'
    using that assms splitChild_props(1,6) [of "?e3\<lparr>alive := False\<rparr>" sm r']
    by (auto simp: weight_def sized_def splits_def)
  show "weight (fst (magmaBody dt p used sm before after e trails ns r))
           + sum_list (map weight (fst (snd (snd (magmaBody dt p used sm before after e trails ns r)))))
         \<le> weight e + sum_list (map weight ns)"
    using kid [of r] kid [of "snd (splitChild sm (?e3\<lparr>alive := False\<rparr>) r)"]
    by (auto simp: magmaBody_def Let_def split_beta weight_def split: if_splits)
  show "sized (fst (magmaBody dt p used sm before after e trails ns r))"
    using assms by (auto simp: magmaBody_def Let_def split_beta sized_def)
  show "\<forall>c \<in> set (fst (snd (snd (magmaBody dt p used sm before after e trails ns r)))).
           c \<in> set ns \<or> sized c"
    using kid [of r] kid [of "snd (splitChild sm (?e3\<lparr>alive := False\<rparr>) r)"]
    by (auto simp: magmaBody_def Let_def split_beta)
qed

lemma magmaLoop_weight:
  assumes "\<forall>e \<in> set es. sized e" and "\<forall>e \<in> set before. sized e" and "\<forall>c \<in> set ns. sized c"
  shows "sum_list (map weight (fst (magmaLoop dt p used sm before es trails ns r)))
           + sum_list (map weight (fst (snd (snd (magmaLoop dt p used sm before es trails ns r)))))
         \<le> sum_list (map weight before) + sum_list (map weight es) + sum_list (map weight ns)
       \<and> (\<forall>e \<in> set (fst (magmaLoop dt p used sm before es trails ns r)). sized e)
       \<and> (\<forall>c \<in> set (fst (snd (snd (magmaLoop dt p used sm before es trails ns r)))). sized c)"
  using assms
proof (induction es arbitrary: before trails ns r)
  case Nil
  then show ?case by simp
next
  case (Cons e es)
  let ?out = "magmaBody dt p used sm before es e trails ns r"
  have e: "sized e" and rest: "\<forall>e \<in> set es. sized e"
    using Cons.prems(1) by simp_all
  note body = magmaBody_weight [OF e, of dt p used sm before es trails ns r]
  have b: "\<forall>x \<in> set (before @ [fst ?out]). sized x"
    using Cons.prems(2) body(2) by simp
  have n: "\<forall>c \<in> set (fst (snd (snd ?out))). sized c"
    using Cons.prems(3) body(3) by blast
  from Cons.IH [OF rest b n, of "fst (snd ?out)" "snd (snd (snd ?out))"] body(1)
  show ?case
    by (simp add: split_beta)
qed

lemma aliveCount_le_weight: "aliveCount es \<le> sum_list (map weight es)"
  by (induction es) (simp_all add: aliveCount_def weight_def)

lemma brood_map:
  assumes "\<And>e. alive (f e) = alive e" and "\<And>e. sizeMult (f e) = sizeMult e"
  shows "brood (map f es) = brood es"
proof -
  have "weight (f e) = weight e" "sized (f e) = sized e" for e
    using assms by (simp_all add: weight_def sized_def)
  then show ?thesis
    by (simp add: brood_def comp_def)
qed

lemma blockOne_sizeMult [simp]: "sizeMult (blockOne sz e) = sizeMult e"
  by (simp add: blockOne_def Let_def)

lemma brood_block: "brood (blockFromSafeZone sz es) = brood es"
  by (simp add: blockFromSafeZone_def brood_map)

lemma weight_alive: "sum_list (map weight (filter alive es)) = sum_list (map weight es)"
  by (induction es) (simp_all add: weight_def)

lemma speedBoost_brood: "brood (v_enemies (speedBoost dt v)) = brood (v_enemies v)"
  by (simp add: speedBoost_def Let_def brood_map)

lemma volcanicHazards_enemies [simp]:
  "v_enemies (fst (volcanicHazards dt p v)) = v_enemies v"
  by (simp add: volcanicHazards_def Let_def split_beta)

lemma updateVolcanic_brood:
  assumes "brood (v_enemies v)"
  shows "brood (v_enemies (fst (updateVolcanic dt p used sm sz r v)))"
proof -
  let ?hz = "volcanicHazards dt p (speedBoost dt v)"
  let ?ticked = "tickEffects (v_enemies (fst ?hz)) dt"
  let ?loop = "magmaLoop dt (snd ?hz) used sm [] ?ticked (lavaTrails (fst ?hz)) [] r"
  have "brood ?ticked"
    using assms by (simp add: tickEffects_def brood_map speedBoost_brood)
  then have t: "\<forall>e \<in> set ?ticked. sized e" "sum_list (map weight ?ticked) \<le> 4"
    by (simp_all add: brood_def)
  from magmaLoop_weight [OF t(1), of "[]" "[]" dt "snd ?hz" used sm "lavaTrails (fst ?hz)" r] t(2)
  have "brood (filter alive (fst ?loop) @ fst (snd (snd ?loop)))"
    by (auto simp: brood_def weight_alive)
  then show ?thesis
    by (simp add: updateVolcanic_def Let_def split_beta brood_block)
qed

lemma detectMove_brood:
  "brood (v_enemies (volcanic (detectMove p s))) = brood (v_enemies (volcanic s))"
  by (simp add: detectMove_def unfreezeAll_def Let_def brood_map)

lemma update_brood:
  assumes "brood (v_enemies (volcanic s))"
  shows "brood (v_enemies (volcanic (fst (update dt p r s))))"
proof (cases "playerMoved (detectMove p s)")
  case True
  show ?thesis
    using assms by (simp add: update_volcanic [OF True] updateVolcanic_brood detectMove_brood)
next
  case False
  then show ?thesis
    using assms
    by (simp add: update_unfold advancePhases_def Let_def detectMove_brood)
qed

lemma run_brood:
  "brood (v_enemies (volcanic (fst sr))) \<Longrightarrow> brood (v_enemies (volcanic (fst (run sr fs))))"
proof (induction fs arbitrary: sr)
  case Nil
  then show ?case by simp
next
  case (Cons f fs)
  from update_brood [OF Cons.prems, of "fst f" "snd f" "snd sr"]
  show ?case
    by (simp add: split_beta Cons.IH)
qed

lemma init_brood: "brood (v_enemies (volcanic (fst (init lvl r))))"
  by (simp add: init_volcanic initVolcanic_def resetState_def Let_def split_beta brood_def
      sized_def weight_def makeMagmawyrm_def arg_or1_def)

lemma volcanic_cap_from_init:
  "aliveCount (v_enemies (volcanic (fst (run (init lvl r) fs)))) \<le> 4"
  using run_brood [OF init_brood, of lvl r fs]
    aliveCount_le_weight [of "v_enemies (volcanic (fst (run (init lvl r) fs)))"]
  by (simp add: brood_def)

lemma aliveCount_alive: "aliveCount es = length (filter (\<lambda>b. b) (map alive es))"
  by (simp add: aliveCount_def filter_map comp_def)

lemma aliveCount_map:
  "(\<And>e. alive (f e) = alive e) \<Longrightarrow> aliveCount (map f es) = aliveCount es"
  by (simp add: aliveCount_alive comp_def)

lemma aliveCount_block [simp]: "aliveCount (blockFromSafeZone sz es) = aliveCount es"
  by (simp add: aliveCount_alive)

lemma aliveCount_tick [simp]: "aliveCount (tickEffects es dt) = aliveCount es"
  by (simp add: tickEffects_def aliveCount_map)

lemma alive_Let: "alive (Let t f) = (let x = t in alive (f x))"
  by simp

lemma fst_Let: "fst (Let t f) = (let x = t in fst (f x))"
  by simp

lemma frostBody_alive [simp]: "alive (fst (frostBody dt p e tiles bullets cooldown r)) = alive e"
  unfolding frostBody_def
  apply (simp only: fst_Let alive_Let if_distrib [of fst] if_distrib [of alive] split_beta fst_conv)
  apply (simp add: split_beta fst_Let alive_Let)
  done

lemma frostLoop_alive [simp]:
  "aliveCount (fst (frostLoop dt p es tiles bullets cooldown r)) = aliveCount es"
  by (induction es arbitrary: tiles bullets cooldown r) (simp_all add: split_beta aliveCount_def)

lemma updateGlacial_cap [simp]:
  "aliveCount (g_enemies (fst (updateGlacial dt p sz r g))) = aliveCount (g_enemies g)"
  by (simp add: updateGlacial_def Let_def split_beta)

lemma spawnThornwyrm_cap:
  "aliveCount (c_enemies c) \<le> MAX_PER_ZONE \<Longrightarrow>
     aliveCount (c_enemies (fst (spawnThornwyrm sm moved r c))) \<le> MAX_PER_ZONE"
  by (simp add: spawnThornwyrm_def Let_def split_beta aliveCount_def makeThornwyrm_def)

lemma canopyMultiply_cap:
  "aliveCount (c_enemies c) \<le> MAX_PER_ZONE \<Longrightarrow>
     aliveCount (c_enemies (fst (canopyMultiply dt p sm moved r c))) \<le> MAX_PER_ZONE"
  by (simp add: canopyMultiply_def Let_def spawnThornwyrm_cap)

lemma canopyTeleport_cap [simp]:
  "aliveCount (c_enemies (canopyTeleport dt c)) = aliveCount (c_enemies c)"
  by (simp add: canopyTeleport_def Let_def aliveCount_map)

lemma canopyEscalate_enemies [simp]: "c_enemies (fst (canopyEscalate dt r c)) = c_enemies c"
  by (simp add: canopyEscalate_def Let_def split_beta)

lemma canopyJolt_enemies [simp]: "c_enemies (fst (canopyJolt dt r c)) = c_enemies c"
  by (simp add: canopyJolt_def Let_def split_beta)

lemma thornBody_alive [simp]: "alive (thornBody dt p e) = alive e"
  unfolding thornBody_def
  apply (simp only: alive_Let if_distrib [of alive])
  apply (simp add: alive_Let if_distrib [of alive])
  done

lemma updateCanopy_cap:
  "aliveCount (c_enemies c) \<le> MAX_PER_ZONE \<Longrightarrow>
     aliveCount (c_enemies (fst (updateCanopy dt p sm moved sz r c))) \<le> MAX_PER_ZONE"
  by (simp add: updateCanopy_def Let_def split_beta aliveCount_map canopyMultiply_cap)

lemma reefMultiply_cap:
  "aliveCount (r_enemies rf) \<le> MAX_PER_ZONE \<Longrightarrow>
     aliveCount (r_enemies (fst (reefMultiply dt sm r rf))) \<le> MAX_PER_ZONE"
  by (simp add: reefMultiply_def Let_def split_beta aliveCount_def makeTidewyrm_def)

lemma reefWaves_enemies [simp]: "r_enemies (reefWaves dt rf) = r_enemies rf"
  by (simp add: reefWaves_def Let_def)

lemma waveStep_alive [simp]: "alive (waveStep dt ph k n i e) = alive e"
  unfolding waveStep_def
  apply (simp only: alive_Let)
  apply simp
  done

lemma waveLoop_alive [simp]: "aliveCount (waveLoop dt ph k n i es) = aliveCount es"
  by (induction es arbitrary: i) (simp_all add: aliveCount_def)

lemma bouncersLoop_alive [simp]:
  "aliveCount (snd (snd (bouncersLoop dt obs p es))) = aliveCount es"
proof (induction obs arbitrary: p es)
  case Nil
  then show ?case by simp
next
  case (Cons b obs)
  have "aliveCount (map (\<lambda>e. if alive e then knockBackEnemy e (bounce dt b) (e_radius e) 40 else e) es)
          = aliveCount es"
    by (rule aliveCount_map) (simp add: knockBackEnemy_def Let_def)
  then show ?case
    by (simp add: split_beta Let_def Cons.IH)
qed

lemma updateReef_cap:
  "aliveCount (r_enemies rf) \<le> MAX_PER_ZONE \<Longrightarrow>
     aliveCount (r_enemies (fst (updateReef dt p sm sz r rf))) \<le> MAX_PER_ZONE"
  by (simp add: updateReef_def Let_def split_beta reefMultiply_cap)

lemma updateZones_capped: "capped s \<Longrightarrow> capped (fst (updateZones dt p used r s))"
  by (simp add: capped_def updateZones_def Let_def split_beta updateVolcanic_brood
      updateCanopy_cap updateReef_cap)

lemma detectMove_capped: "capped (detectMove p s) = capped s"
  by (simp add: capped_def detectMove_def unfreezeAll_def Let_def brood_map aliveCount_map)

lemma advancePhases_capped: "capped (advancePhases dt s) = capped s"
  by (simp add: capped_def advancePhases_def)

lemma update_capped:
  assumes "capped s"
  shows "capped (fst (update dt p r s))"
proof -
  let ?s4 = "(detectMove p s)\<lparr>time := time s + dt, prevAbilityCooldown := abilityCooldown p,
                safeZone := updateSafeZone p (safeZone s)\<rparr>"
  have "capped ?s4"
    using assms detectMove_capped [of p s] by (simp add: capped_def)
  then show ?thesis
    using updateZones_capped [of ?s4 dt p "abilityJustUsed p s" r]
    by (simp add: update_unfold Let_def split_beta advancePhases_capped)
qed

lemma run_capped: "capped (fst sr) \<Longrightarrow> capped (fst (run sr fs))"
proof (induction fs arbitrary: sr)
  case Nil
  then show ?case by simp
next
  case (Cons f fs)
  from update_capped [OF Cons.prems, of "fst f" "snd f" "snd sr"]
  show ?case
    by (simp add: split_beta Cons.IH)
qed

lemma aliveCount_le_length: "aliveCount es \<le> length es"
  by (simp add: aliveCount_def)

lemma length_initTidewyrms: "length (fst (initTidewyrms sm ns r)) = length ns"
  by (induction ns arbitrary: r) (simp_all add: split_beta Let_def)

lemma init_glacial_enemies:
  "g_enemies (glacial (fst (init lvl r))) =
     [makeFrostwyrm ((5 / 4) powr real_of_int (lvl - 1)) 1500 500]"
  by (simp add: init_def initReef_def initCanopy_def initGlacial_def initVolcanic_def resetState_def
      ZONES_glacial_def Let_def split_beta
      del: initGeysers.simps initTidewyrms.simps initBouncers.simps addCanopyObstacles.simps)

lemma init_reef_enemies:
  "\<exists>sm r'. r_enemies (reef (fst (init lvl r))) = fst (initTidewyrms sm [0, 1, 2] r')"
proof -
  let ?s1 = "fst (initVolcanic r (resetState lvl))"
  let ?c = "initCanopy (snd (initVolcanic r (resetState lvl))) (initGlacial ?s1)"
  have "reef (fst ?c) = reef (resetState lvl)"
    by (simp add: initCanopy_def initGlacial_def initVolcanic_def Let_def split_beta
        del: initGeysers.simps addCanopyObstacles.simps)
  then have "r_enemies (reef (fst (init lvl r))) =
      fst (initTidewyrms (speedMult (fst ?c)) [0, 1, 2] (snd ?c))"
    by (simp add: init_def initReef_def resetState_def Let_def split_beta
        del: initTidewyrms.simps initBouncers.simps)
  then show ?thesis
    by blast
qed

lemma init_capped: "capped (fst (init lvl r))"
proof -
  let ?s1 = "fst (initVolcanic r (resetState lvl))"
  let ?s2 = "initGlacial ?s1"
  let ?r1 = "snd (initVolcanic r (resetState lvl))"
  let ?sp1 = "spawnThornwyrm (speedMult ?s2) (playerMoved ?s2) ?r1 (canopy (resetState lvl))"
  let ?sp2 = "spawnThornwyrm (speedMult ?s2) (playerMoved ?s2) (snd ?sp1) (fst ?sp1)"
  have v: "brood (v_enemies (volcanic (fst (init lvl r))))"
    by (rule init_brood)
  have g: "aliveCount (g_enemies (glacial (fst (init lvl r)))) \<le> MAX_PER_ZONE"
    by (simp add: init_glacial_enemies aliveCount_def makeFrostwyrm_def MAX_PER_ZONE_def)
  have "canopy ?s2 = canopy (resetState lvl)"
    by (simp add: initGlacial_def initVolcanic_def Let_def split_beta del: initGeysers.simps)
  then have eq: "c_enemies (canopy (fst (init lvl r))) = c_enemies (fst ?sp2)"
    by (simp add: init_def initReef_def initCanopy_def Let_def split_beta
        del: initGeysers.simps initTidewyrms.simps initBouncers.simps addCanopyObstacles.simps)
  have "aliveCount (c_enemies (canopy (resetState lvl))) \<le> MAX_PER_ZONE"
    by (simp add: resetState_def aliveCount_def)
  then have "aliveCount (c_enemies (fst ?sp2)) \<le> MAX_PER_ZONE"
    by (intro spawnThornwyrm_cap)
  then have c: "aliveCount (c_enemies (canopy (fst (init lvl r)))) \<le> MAX_PER_ZONE"
    by (simp only: eq)
  obtain sm r' where "r_enemies (reef (fst (init lvl r))) = fst (initTidewyrms sm [0, 1, 2] r')"
    using init_reef_enemies by blast
  then have "aliveCount (r_enemies (reef (fst (init lvl r)))) \<le> 3"
    using aliveCount_le_length [of "fst (initTidewyrms sm [0, 1, 2] r')"]
    by (simp add: length_initTidewyrms del: initTidewyrms.simps)
  then have rf: "aliveCount (r_enemies (reef (fst (init lvl r)))) \<le> MAX_PER_ZONE"
    by (simp add: MAX_PER_ZONE_def)
  from v g c rf show ?thesis
    by (simp add: capped_def)
qed

subsection \<open>The Magmawyrms once the player has moved\<close>

lemma splitChild_awake [simp]: "\<not> frozen (fst (splitChild sm e r))"
  by (simp add: splitChild_def Let_def split_beta)


























subsection \<open>The one Frostwyrm and its bullets\<close>

text \<open>
  \<^verbatim>\<open>_initGlacial\<close> is the only place that adds to \<^verbatim>\<open>S.glacial.enemies\<close>: a level has one
  Frostwyrm, and the cooldown of the zone is the cooldown of that enemy. Visited
  alive and not frozen, it takes \<open>dt\<close> from the cooldown; when that is then at or below
  0, it fires and sets it to 2 if the player is within 300px, and sets it to 0.5
  otherwise. The bullet has radius 8, starts on the enemy and, when the player is not
  exactly on the enemy, flies toward the player at 210px/s. After the frame the zone
  holds the alive bullets that, moved, neither touch the player nor are out of the map,
  and the player has one more \<^verbatim>\<open>dead\<close> effect for each bullet that touches.
\<close>

lemma frostLoop_length [simp]: "length (fst (frostLoop dt p es tiles bullets cooldown r)) = length es"
  by (induction es arbitrary: tiles bullets cooldown r) (simp_all add: split_beta)

lemma blockFromSafeZone_length [simp]: "length (blockFromSafeZone sz es) = length es"
  by (simp add: blockFromSafeZone_def)

lemma updateGlacial_length [simp]:
  "length (g_enemies (fst (updateGlacial dt p sz r g))) = length (g_enemies g)"
  by (simp add: updateGlacial_def Let_def split_beta tickEffects_def)

lemma detectMove_glacial_length [simp]:
  "length (g_enemies (glacial (detectMove p s))) = length (g_enemies (glacial s))"
  by (simp add: detectMove_def unfreezeAll_def Let_def)

lemma update_glacial_length:
  "length (g_enemies (glacial (fst (update dt p r s)))) = length (g_enemies (glacial s))"
proof (cases "playerMoved (detectMove p s)")
  case True
  then show ?thesis
    by (simp add: update_glacial Let_def)
next
  case False
  then show ?thesis
    by (simp add: update_still)
qed

lemma one_frostwyrm: "length (g_enemies (glacial (fst (run (init lvl r) fs)))) = 1"
proof -
  have "length (g_enemies (glacial (fst (run sr fs)))) = length (g_enemies (glacial (fst sr)))" for sr
  proof (induction fs arbitrary: sr)
    case Nil
    then show ?case by simp
  next
    case (Cons f fs)
    show ?case
      by (simp add: split_beta Cons.IH update_glacial_length)
  qed
  then show ?thesis
    by (simp add: init_glacial_enemies)
qed

lemma frost_shot_and_bullets:
  "(alive e \<and> \<not> frozen e \<longrightarrow>
      (let out = frostBody dt p e tiles bullets cd r;
           e' = fst out;
           bullets' = fst (snd (snd out));
           cd' = fst (snd (snd (snd out)));
           bx = p_x p - e_x e';
           by = p_y p - e_y e'
       in (0 < cd - dt \<longrightarrow> bullets' = bullets \<and> cd' = cd - dt)
        \<and> (cd - dt \<le> 0 \<and> 300 < hyp bx by \<longrightarrow> bullets' = bullets \<and> cd' = 1 / 2)
        \<and> (cd - dt \<le> 0 \<and> hyp bx by \<le> 300 \<longrightarrow>
             cd' = 2 \<and> length bullets' = length bullets + 1 \<and> butlast bullets' = bullets
             \<and> b_radius (last bullets') = 8 \<and> b_alive (last bullets')
             \<and> b_x (last bullets') = Num (e_x e') \<and> b_y (last bullets') = Num (e_y e')
             \<and> (0 < hyp bx by \<longrightarrow>
                  b_vx (last bullets') = Num (bx / hyp bx by * 210)
                  \<and> b_vy (last bullets') = Num (by / hyp bx by * 210)
                  \<and> (bx / hyp bx by * 210) * (bx / hyp bx by * 210)
                      + (by / hyp bx by * 210) * (by / hyp bx by * 210) = 210 * 210))))
   \<and> (let fired = fst (snd (snd (frostLoop dt p (tickEffects (g_enemies g) dt) (frozenTiles g)
                                     (iceBullets g) (bulletCooldown g) r)));
           moved = map (moveBullet dt) (filter b_alive fired)
       in iceBullets (fst (updateGlacial dt p sz r g))
            = filter (\<lambda>b. \<not> touches p b \<and> \<not> outOfBounds b) moved
        \<and> p_activeEffects (fst (snd (updateGlacial dt p sz r g)))
            = p_activeEffects p @ replicate (length (filter (touches p) moved)) deadEffect)"
proof -
  have body: "alive e \<and> \<not> frozen e \<longrightarrow>
      (let out = frostBody dt p e tiles bullets cd r;
           e' = fst out;
           bullets' = fst (snd (snd out));
           cd' = fst (snd (snd (snd out)));
           bx = p_x p - e_x e';
           by = p_y p - e_y e'
       in (0 < cd - dt \<longrightarrow> bullets' = bullets \<and> cd' = cd - dt)
        \<and> (cd - dt \<le> 0 \<and> 300 < hyp bx by \<longrightarrow> bullets' = bullets \<and> cd' = 1 / 2)
        \<and> (cd - dt \<le> 0 \<and> hyp bx by \<le> 300 \<longrightarrow>
             cd' = 2 \<and> length bullets' = length bullets + 1 \<and> butlast bullets' = bullets
             \<and> b_radius (last bullets') = 8 \<and> b_alive (last bullets')
             \<and> b_x (last bullets') = Num (e_x e') \<and> b_y (last bullets') = Num (e_y e')
             \<and> (0 < hyp bx by \<longrightarrow>
                  b_vx (last bullets') = Num (bx / hyp bx by * 210)
                  \<and> b_vy (last bullets') = Num (by / hyp bx by * 210)
                  \<and> (bx / hyp bx by * 210) * (bx / hyp bx by * 210)
                      + (by / hyp bx by * 210) * (by / hyp bx by * 210) = 210 * 210)))"
    using aim_speed
    by (auto simp: frostBody_def Let_def split_beta js_div_def simp del: hyp_eq_0_iff)
  have gone: "(let fired = fst (snd (snd (frostLoop dt p (tickEffects (g_enemies g) dt) (frozenTiles g)
                                     (iceBullets g) (bulletCooldown g) r)));
           moved = map (moveBullet dt) (filter b_alive fired)
       in iceBullets (fst (updateGlacial dt p sz r g))
            = filter (\<lambda>b. \<not> touches p b \<and> \<not> outOfBounds b) moved
        \<and> p_activeEffects (fst (snd (updateGlacial dt p sz r g)))
            = p_activeEffects p @ replicate (length (filter (touches p) moved)) deadEffect)"
    by (simp add: Let_def updateGlacial_bullets updateGlacial_effects
        bulletsLoop_survivors [of p p] bulletsLoop_effects [of p p])
  from body gone show ?thesis by blast
qed

subsection \<open>The radius in doubles\<close>

lemma round64_eval:
  assumes "2 powr real_of_int k \<le> \<bar>x\<bar>" and "\<bar>x\<bar> < 2 powr real_of_int (k + 1)" and "- 1022 \<le> k"
  shows "round64 x = real_of_int (roundEven (x / 2 powr real_of_int (k - 52))) * 2 powr real_of_int (k - 52)"
proof -
  have pos: "0 < \<bar>x\<bar>"
    using assms(1) powr_gt_zero [of 2 "real_of_int k"] by linarith
  have "real_of_int k \<le> log 2 \<bar>x\<bar>"
    using assms(1) pos by (simp add: le_log_iff)
  moreover have "log 2 \<bar>x\<bar> < real_of_int k + 1"
    using assms(2) pos by (simp add: log_less_iff)
  ultimately have "\<lfloor>log 2 \<bar>x\<bar>\<rfloor> = k"
    by (simp add: floor_eq_iff)
  then show ?thesis
    using pos assms(3) by (simp add: round64_def Let_def)
qed

lemma factor64: "round64 (4 / 5) = 3602879701896397 / 4503599627370496"
  using round64_eval [of "- 1" "4 / 5"]
  by (simp add: roundEven_def Let_def powr_minus powr_numeral field_simps)

lemma shrink64:
  "times64 120 (3602879701896397 / 4503599627370496) = 96"
  "times64 96 (3602879701896397 / 4503599627370496) = 1351079888211149 / 17592186044416"
  "times64 (1351079888211149 / 17592186044416) (3602879701896397 / 4503599627370496)
     = 4323455642275677 / 70368744177664"
proof -
  show "times64 120 (3602879701896397 / 4503599627370496) = 96"
    using round64_eval [of 6 "120 * (3602879701896397 / 4503599627370496)"]
    by (simp add: times64_def roundEven_def Let_def powr_minus powr_numeral field_simps)
  show "times64 96 (3602879701896397 / 4503599627370496) = 1351079888211149 / 17592186044416"
    using round64_eval [of 6 "96 * (3602879701896397 / 4503599627370496)"]
    by (simp add: times64_def roundEven_def Let_def powr_minus powr_numeral field_simps)
  show "times64 (1351079888211149 / 17592186044416) (3602879701896397 / 4503599627370496)
     = 4323455642275677 / 70368744177664"
    using round64_eval [of 5 "1351079888211149 / 17592186044416 * (3602879701896397 / 4503599627370496)"]
    by (simp add: times64_def roundEven_def Let_def powr_minus powr_numeral field_simps)
qed

lemma literal64: "round64 (1536 / 25) = 1080863910568919 / 17592186044416"
  using round64_eval [of 5 "1536 / 25"]
  by (simp add: roundEven_def Let_def powr_minus powr_numeral field_simps)

lemma shrunk64:
  "((\<lambda>x. times64 x (round64 (4 / 5))) ^^ 0) 120 = 120"
  "((\<lambda>x. times64 x (round64 (4 / 5))) ^^ 1) 120 = 96"
  "((\<lambda>x. times64 x (round64 (4 / 5))) ^^ 2) 120 = 1351079888211149 / 17592186044416"
  "((\<lambda>x. times64 x (round64 (4 / 5))) ^^ 3) 120 = 4323455642275677 / 70368744177664"
  by (simp_all add: numeral_2_eq_2 numeral_3_eq_3 factor64 shrink64)

lemma shrunk64_wide:
  assumes "n \<le> 3"
  shows "18 \<le> ((\<lambda>x. times64 x (round64 (4 / 5))) ^^ n) 120"
proof -
  consider "n = 0" | "n = 1" | "n = 2" | "n = 3"
    using assms by arith
  then show ?thesis
  proof cases
    case 1
    then show ?thesis by simp
  next
    case 2
    then show ?thesis by (simp only: shrunk64; simp)
  next
    case 3
    then show ?thesis by (simp only: shrunk64; simp)
  next
    case 4
    then show ?thesis by (simp only: shrunk64; simp)
  qed
qed

lemma updateSafeZone64_step:
  "uses (updateSafeZone64 p z) = (if active z \<and> inside p z \<and> \<not> playerWasInside z then uses z + 1 else uses z)"
  "sz_radius (updateSafeZone64 p z) =
     (if active z \<and> inside p z \<and> \<not> playerWasInside z
      then times64 (sz_radius z) (round64 (4 / 5)) else sz_radius z)"
  by (simp_all add: updateSafeZone64_def Let_def)

lemma updateSafeZone64_same:
  "uses (updateSafeZone64 p z) = uses (updateSafeZone p z)"
  "maxUses (updateSafeZone64 p z) = maxUses (updateSafeZone p z)"
  "playerWasInside (updateSafeZone64 p z) = playerWasInside (updateSafeZone p z)"
  "sz_x (updateSafeZone64 p z) = sz_x (updateSafeZone p z)"
  "sz_y (updateSafeZone64 p z) = sz_y (updateSafeZone p z)"
  by (simp_all add: updateSafeZone64_def updateSafeZone_def Let_def)

lemma entries64_invariant:
  assumes "maxUses sz = 3" "uses sz \<le> 3"
    "sz_radius sz = ((\<lambda>x. times64 x (round64 (4 / 5))) ^^ uses sz) 120"
    "active sz = (uses sz < 3)"
  shows "maxUses (updateSafeZone64 p sz) = 3 \<and> uses (updateSafeZone64 p sz) \<le> 3
     \<and> sz_radius (updateSafeZone64 p sz)
         = ((\<lambda>x. times64 x (round64 (4 / 5))) ^^ uses (updateSafeZone64 p sz)) 120
     \<and> active (updateSafeZone64 p sz) = (uses (updateSafeZone64 p sz) < 3)"
proof (cases "active sz \<and> inside p sz \<and> \<not> playerWasInside sz")
  case False
  then show ?thesis
    using assms by (auto simp: updateSafeZone64_def Let_def)
next
  case True
  then have less: "uses sz < 3"
    using assms(4) by simp
  then have "18 \<le> ((\<lambda>x. times64 x (round64 (4 / 5))) ^^ Suc (uses sz)) 120"
    by (intro shrunk64_wide) simp
  then have wide: "\<not> times64 (sz_radius sz) (round64 (4 / 5)) < 18"
    by (simp add: assms(3))
  show ?thesis
    using True less assms(1) wide
    by (auto simp: updateSafeZone64_def Let_def assms(3))
qed

lemma entries64_invariant_fold:
  assumes "maxUses sz = 3" "uses sz \<le> 3"
    "sz_radius sz = ((\<lambda>x. times64 x (round64 (4 / 5))) ^^ uses sz) 120"
    "active sz = (uses sz < 3)"
  shows "maxUses (foldl (\<lambda>z p. updateSafeZone64 p z) sz ps) = 3
     \<and> uses (foldl (\<lambda>z p. updateSafeZone64 p z) sz ps) \<le> 3
     \<and> sz_radius (foldl (\<lambda>z p. updateSafeZone64 p z) sz ps)
         = ((\<lambda>x. times64 x (round64 (4 / 5))) ^^ uses (foldl (\<lambda>z p. updateSafeZone64 p z) sz ps)) 120
     \<and> active (foldl (\<lambda>z p. updateSafeZone64 p z) sz ps)
         = (uses (foldl (\<lambda>z p. updateSafeZone64 p z) sz ps) < 3)"
  using assms
proof (induction ps arbitrary: sz)
  case Nil
  then show ?case by simp
next
  case (Cons p ps)
  from entries64_invariant [OF Cons.prems, of p] Cons.IH [of "updateSafeZone64 p sz"]
  show ?case by simp
qed

lemma inAndOut64:
  "foldl (\<lambda>z p. updateSafeZone64 p z) (safeZone fresh) (map snd inAndOut) =
     \<lparr>sz_x = 1000, sz_y = 1000, sz_radius = 4323455642275677 / 70368744177664, uses = 3, maxUses = 3,
      active = False, playerWasInside = True\<rparr>"
  by (simp add: fresh_safeZone inAndOut_def playerAt_def updateSafeZone64_def inside_def Let_def
      factor64 shrink64)

section \<open>The claims about the safe zone\<close>

text \<open>
  Claim C7. Within one level, that is along every run of frames from the state that
  \<^verbatim>\<open>init\<close> builds, the radius of the safe zone never grows from one frame to the next,
  and once the safe zone is inactive it is inactive after every further frame.
\<close>

theorem safeZone_monotone:
  "sz_radius (safeZone (fst (run (init lvl r) (fs @ [f]))))
     \<le> sz_radius (safeZone (fst (run (init lvl r) fs)))
   \<and> (\<not> active (safeZone (fst (run (init lvl r) fs)))
        \<longrightarrow> \<not> active (safeZone (fst (run (init lvl r) (fs @ gs)))))"
proof -
  have "0 < sz_radius (safeZone (fst (run (init lvl r) fs)))"
    by (simp add: run_safeZone init_safeZone fold_positive resetState_def)
  then have "sz_radius (safeZone (fst (run (init lvl r) (fs @ [f]))))
     \<le> sz_radius (safeZone (fst (run (init lvl r) fs)))"
    by (simp add: run_snoc Let_def update_safeZone updateSafeZone_shrinks)
  moreover have "\<not> active (safeZone (fst (run (init lvl r) fs)))
        \<longrightarrow> \<not> active (safeZone (fst (run (init lvl r) (fs @ gs))))"
    by (simp add: run_append run_safeZone [of "run (init lvl r) fs"] fold_stays_off)
  ultimately show ?thesis by simp
qed

theorem safeZone_monotone_witness:
  "\<not> active (safeZone (fst (run (init 1 zeros) inAndOut)))
   \<and> \<not> active (safeZone (fst (run (init 1 zeros) (inAndOut @ [(1 / 60, playerAt 1000 1000 0)]))))
   \<and> sz_radius (safeZone (fst (run (init 1 zeros) (inAndOut @ [(1 / 60, playerAt 1000 1000 0)]))))
       \<le> sz_radius (safeZone (fst (run (init 1 zeros) inAndOut)))"
proof -
  have off: "\<not> active (safeZone (fst (run (init 1 zeros) inAndOut)))"
    using inAndOut_safeZone by (simp add: run_safeZone fresh_def)
  with safeZone_monotone [of 1 zeros inAndOut "(1 / 60, playerAt 1000 1000 0)" "[(1 / 60, playerAt 1000 1000 0)]"]
  show ?thesis by simp
qed

text \<open>
  Claim C8, as the code has it. The radius is a double, and each product by \<^verbatim>\<open>0.80\<close>
  is rounded. From a safe zone with radius 120, no use, three uses at most, and active,
  a frame changes the number of uses and the radius exactly when the zone is active and
  the player is inside and was not inside at the frame before; then the uses go up by
  one and the radius becomes the rounded product. The zone is active exactly as long as
  it has fewer than three uses, so it is the third entry that ends it (the radius is
  never below 18 before), and the radius is 120 shrunk once for each use: 96 after one
  entry, 76.80000000000001 after two, and 61.44000000000001 after three. That last
  double is 4323455642275677 divided by 2 to the power 46: two units in the last place
  above the double that the literal 61.44 denotes, and closer than 2 to the power -46
  to the number 61.44.
\<close>

theorem three_entries:
  assumes "sz_radius sz = 120" and "uses sz = 0" and "maxUses sz = 3" and "active sz"
    and "z = foldl (\<lambda>z p. updateSafeZone64 p z) sz ps"
  shows "(if active z \<and> inside p z \<and> \<not> playerWasInside z
          then uses (updateSafeZone64 p z) = uses z + 1
             \<and> sz_radius (updateSafeZone64 p z) = times64 (sz_radius z) (round64 (4 / 5))
          else uses (updateSafeZone64 p z) = uses z
             \<and> sz_radius (updateSafeZone64 p z) = sz_radius z)
       \<and> active z = (uses z < 3)
       \<and> sz_radius z = ((\<lambda>x. times64 x (round64 (4 / 5))) ^^ uses z) 120
       \<and> (uses z = 1 \<longrightarrow> sz_radius z = 96)
       \<and> (uses z = 2 \<longrightarrow> sz_radius z = 1351079888211149 / 2 ^ 44)
       \<and> (uses z = 3 \<longrightarrow>
            sz_radius z = 4323455642275677 / 2 ^ 46
            \<and> sz_radius z = round64 (6144 / 100) + 2 / 2 ^ 47
            \<and> \<bar>sz_radius z - 6144 / 100\<bar> < 1 / 2 ^ 46
            \<and> \<not> active z)"
proof -
  have inv: "uses z \<le> 3" "sz_radius z = ((\<lambda>x. times64 x (round64 (4 / 5))) ^^ uses z) 120"
    "active z = (uses z < 3)"
    using entries64_invariant_fold [of sz ps] assms by simp_all
  have step: "if active z \<and> inside p z \<and> \<not> playerWasInside z
          then uses (updateSafeZone64 p z) = uses z + 1
             \<and> sz_radius (updateSafeZone64 p z) = times64 (sz_radius z) (round64 (4 / 5))
          else uses (updateSafeZone64 p z) = uses z
             \<and> sz_radius (updateSafeZone64 p z) = sz_radius z"
    by (simp add: updateSafeZone64_step)
  have one: "uses z = 1 \<longrightarrow> sz_radius z = 96"
  proof
    assume "uses z = 1"
    then have "sz_radius z = ((\<lambda>x. times64 x (round64 (4 / 5))) ^^ 1) 120"
      using inv(2) by simp
    then show "sz_radius z = 96"
      by (simp only: shrunk64)
  qed
  have two: "uses z = 2 \<longrightarrow> sz_radius z = 1351079888211149 / 2 ^ 44"
  proof
    assume "uses z = 2"
    then have "sz_radius z = ((\<lambda>x. times64 x (round64 (4 / 5))) ^^ 2) 120"
      using inv(2) by simp
    then have "sz_radius z = 1351079888211149 / 17592186044416"
      by (simp only: shrunk64)
    then show "sz_radius z = 1351079888211149 / 2 ^ 44"
      by simp
  qed
  have three: "uses z = 3 \<longrightarrow>
            sz_radius z = 4323455642275677 / 2 ^ 46
            \<and> sz_radius z = round64 (6144 / 100) + 2 / 2 ^ 47
            \<and> \<bar>sz_radius z - 6144 / 100\<bar> < 1 / 2 ^ 46
            \<and> \<not> active z"
  proof
    assume u: "uses z = 3"
    then have "sz_radius z = ((\<lambda>x. times64 x (round64 (4 / 5))) ^^ 3) 120"
      using inv(2) by simp
    then have r: "sz_radius z = 4323455642275677 / 70368744177664"
      by (simp only: shrunk64)
    show "sz_radius z = 4323455642275677 / 2 ^ 46
            \<and> sz_radius z = round64 (6144 / 100) + 2 / 2 ^ 47
            \<and> \<bar>sz_radius z - 6144 / 100\<bar> < 1 / 2 ^ 46
            \<and> \<not> active z"
      unfolding r using u by (simp add: inv(3) literal64)
  qed
  from step inv(3) inv(2) one two three show ?thesis
    by blast
qed

theorem three_entries_witness:
  "sz_radius (safeZone fresh) = 120 \<and> uses (safeZone fresh) = 0 \<and> maxUses (safeZone fresh) = 3
   \<and> active (safeZone fresh)
   \<and> uses (foldl (\<lambda>z p. updateSafeZone64 p z) (safeZone fresh) (map snd inAndOut)) = 3
   \<and> sz_radius (foldl (\<lambda>z p. updateSafeZone64 p z) (safeZone fresh) (map snd inAndOut))
       = 4323455642275677 / 2 ^ 46
   \<and> \<not> active (foldl (\<lambda>z p. updateSafeZone64 p z) (safeZone fresh) (map snd inAndOut))"
proof -
  have start: "sz_radius (safeZone fresh) = 120" "uses (safeZone fresh) = 0"
    "maxUses (safeZone fresh) = 3" "active (safeZone fresh)"
    by (simp_all add: fresh_safeZone)
  have three: "uses (foldl (\<lambda>z p. updateSafeZone64 p z) (safeZone fresh) (map snd inAndOut)) = 3"
    by (simp add: inAndOut64)
  from three_entries [OF start refl, of "map snd inAndOut" "playerAt 1000 1000 0"] three start
  show ?thesis by simp
qed

text \<open>
  The claim has the radius equal to 61.44 after three entries. After the three entries
  of \<open>inAndOut\<close> it is neither the number 61.44 nor the double of that literal.
\<close>

theorem rounded_radius_counterexample:
  "uses (foldl (\<lambda>z p. updateSafeZone64 p z) (safeZone fresh) (map snd inAndOut)) = 3
   \<and> sz_radius (foldl (\<lambda>z p. updateSafeZone64 p z) (safeZone fresh) (map snd inAndOut)) \<noteq> 6144 / 100
   \<and> sz_radius (foldl (\<lambda>z p. updateSafeZone64 p z) (safeZone fresh) (map snd inAndOut))
       \<noteq> round64 (6144 / 100)"
  by (simp add: inAndOut64 literal64)

text \<open>
  Claim C10. A frame changes the uses or the radius of the safe zone only if the zone
  is active, the distance of the player to the center is strictly below the radius
  minus the player's radius, and \<^verbatim>\<open>playerWasInside\<close> is false; it then takes exactly one
  use. The flag records the test of the frame, so the frame after one with the player
  inside takes no use, wherever the player then is.
\<close>

theorem use_only_on_entry:
  "(uses (safeZone (fst (update dt p r s))) \<noteq> uses (safeZone s)
      \<or> sz_radius (safeZone (fst (update dt p r s))) \<noteq> sz_radius (safeZone s)
     \<longrightarrow> active (safeZone s)
         \<and> hyp (p_x p - sz_x (safeZone s)) (p_y p - sz_y (safeZone s))
              < sz_radius (safeZone s) - p_radius p
         \<and> \<not> playerWasInside (safeZone s)
         \<and> uses (safeZone (fst (update dt p r s))) = uses (safeZone s) + 1
         \<and> sz_radius (safeZone (fst (update dt p r s))) = sz_radius (safeZone s) * (4 / 5))
   \<and> (active (safeZone s) \<and> inside p (safeZone s) \<and> \<not> playerWasInside (safeZone s)
     \<longrightarrow> uses (safeZone (fst (update dt p r s))) = uses (safeZone s) + 1)
   \<and> (playerWasInside (safeZone (fst (update dt p r s))) \<and> active (safeZone s) \<longrightarrow> inside p (safeZone s))
   \<and> (active (safeZone s) \<and> inside p (safeZone s)
     \<longrightarrow> uses (safeZone (fst (update dt' p' r' (fst (update dt p r s)))))
           = uses (safeZone (fst (update dt p r s)))
       \<and> sz_radius (safeZone (fst (update dt' p' r' (fst (update dt p r s)))))
           = sz_radius (safeZone (fst (update dt p r s))))"
  by (simp add: update_safeZone updateSafeZone_def inside_def Let_def)

theorem use_only_on_entry_witness:
  "uses (safeZone (fst (update (1 / 60) (playerAt 1000 1000 0) zeros fresh))) \<noteq> uses (safeZone fresh)
   \<and> active (safeZone fresh) \<and> inside (playerAt 1000 1000 0) (safeZone fresh)
   \<and> \<not> playerWasInside (safeZone fresh)
   \<and> playerWasInside (safeZone (fst (update (1 / 60) (playerAt 1000 1000 0) zeros fresh)))
   \<and> uses (safeZone (fst (update (1 / 60) (playerAt 1000 1000 0) zeros fresh))) = 1
   \<and> uses (safeZone (fst (update (1 / 60) (playerAt 1000 1000 0) zeros
                            (fst (update (1 / 60) (playerAt 1000 1000 0) zeros fresh))))) = 1"
proof -
  have "uses (safeZone (fst (update (1 / 60) (playerAt 1000 1000 0) zeros fresh))) = 1"
    and "playerWasInside (safeZone (fst (update (1 / 60) (playerAt 1000 1000 0) zeros fresh)))"
    and "inside (playerAt 1000 1000 0) (safeZone fresh)"
    by (simp_all add: update_safeZone fresh_safeZone updateSafeZone_def inside_def playerAt_def Let_def)
  with use_only_on_entry [of "1 / 60" "playerAt 1000 1000 0" zeros fresh "1 / 60" "playerAt 1000 1000 0" zeros]
  show ?thesis by (simp add: fresh_safeZone)
qed

section \<open>The claims about the enemies\<close>

text \<open>
  Claim C1. After \<^verbatim>\<open>init\<close> and after every frame of a run from there, each of the four
  zones holds at most six alive enemies. Glacial keeps its one Frostwyrm, Canopy and
  Reef test the count before they spawn, and in the Volcanic zone a split replaces an
  enemy of size 1 or 0.6 by two of size 0.6 or 0.36, and nothing at or below 0.4 splits:
  the one Magmawyrm of \<^verbatim>\<open>init\<close> never has more than four alive descendants, however
  many of them split in the same frame.
\<close>

theorem cap_holds:
  "aliveCount (v_enemies (volcanic (fst (run (init lvl r) frames)))) \<le> MAX_PER_ZONE
   \<and> aliveCount (g_enemies (glacial (fst (run (init lvl r) frames)))) \<le> MAX_PER_ZONE
   \<and> aliveCount (c_enemies (canopy (fst (run (init lvl r) frames)))) \<le> MAX_PER_ZONE
   \<and> aliveCount (r_enemies (reef (fst (run (init lvl r) frames)))) \<le> MAX_PER_ZONE"
  using run_capped [OF init_capped, of lvl r frames]
    aliveCount_le_weight [of "v_enemies (volcanic (fst (run (init lvl r) frames)))"]
  by (simp add: capped_def brood_def MAX_PER_ZONE_def)

text \<open>
  Claim C2. \<^verbatim>\<open>_blockFromSafeZone\<close> does not move an enemy that stands exactly on the
  center: the distance 0 is replaced by 1 and the direction is the zero vector. After
  the frame the Magmawyrm of \<open>pulled\<close> is alive, at distance 0 from the center of the
  active safe zone, whose radius plus the enemy's is 116.
\<close>

theorem centre_enemy_stays:
  "active (safeZone (fst (update (1 / 60) (playerAt 1000 1000 0) zeros pulled)))
   \<and> map (\<lambda>e. (alive e,
               hyp (e_x e - sz_x (safeZone (fst (update (1 / 60) (playerAt 1000 1000 0) zeros pulled))))
                   (e_y e - sz_y (safeZone (fst (update (1 / 60) (playerAt 1000 1000 0) zeros pulled)))),
               sz_radius (safeZone (fst (update (1 / 60) (playerAt 1000 1000 0) zeros pulled))) + e_radius e))
        (v_enemies (volcanic (fst (update (1 / 60) (playerAt 1000 1000 0) zeros pulled))))
     = [(True, 0, 116)]"
proof -
  have moved: "playerMoved pulled" and noCooldown: "prevAbilityCooldown pulled = 0"
    and sm: "speedMult pulled = 1" and sz: "safeZone pulled = safeZone fresh"
    by (simp_all add: pulled_def fresh_flags)
  have z: "safeZone (fst (update (1 / 60) (playerAt 1000 1000 0) zeros pulled)) =
      \<lparr>sz_x = 1000, sz_y = 1000, sz_radius = 96, uses = 1, maxUses = 3, active = True,
       playerWasInside = True\<rparr>"
    by (simp add: update_safeZone sz fresh_safeZone updateSafeZone_def inside_def playerAt_def Let_def)
  have "v_enemies (volcanic (fst (update (1 / 60) (playerAt 1000 1000 0) zeros pulled))) =
        [(makeMagmawyrm 1 1000 1000 None None)
           \<lparr>frozen := False, activeEffects := [frozenEffect\<lparr>eff_duration := Finite (299 / 60)\<rparr>],
            trailTimer := 1 / 60\<rparr>]"
    apply (subst update_volcanic)
     apply (simp add: detectMove_moved moved)
    apply (simp add: detectMove_moved moved noCooldown sm sz abilityJustUsed_def playerAt_def)
    apply (simp add: pulled_def fresh_volcanic fresh_safeZone makeMagmawyrm_def arg_or1_def
        or1_def updateVolcanic_def speedBoost_def volcanicHazards_def updateSafeZone_def inside_def
        geyserStep_def pushOut_def tickEffects_def tickEffect_def frozenEffect_def magmaBody_def magmaMove_def
        chasePlayer_def blockFromSafeZone_def blockOne_def hyp_eval List.map_filter_simps Let_def)
    done
  then show ?thesis
    by (simp add: z makeMagmawyrm_def arg_or1_def)
qed




text \<open>
  Claim C4, as the code has it. A frame that leaves \<^verbatim>\<open>playerMoved\<close> false skips the
  four zone simulators: no enemy moves, and no timer of a zone ticks either, the ones
  of the geysers and of the lava trails included. Of the zones only the visual phases
  change, and the player and the random source are left alone.
\<close>

theorem freeze_gate:
  assumes "\<not> playerMoved (fst (update dt p r s))"
  shows "volcanic (fst (update dt p r s)) = (volcanic s)\<lparr>v_visualPhase := v_visualPhase (volcanic s) + dt * 8\<rparr>
     \<and> glacial (fst (update dt p r s)) = glacial s
     \<and> canopy (fst (update dt p r s)) = (canopy s)\<lparr>c_visualPhase := c_visualPhase (canopy s) + dt * 3\<rparr>
     \<and> reef (fst (update dt p r s)) = (reef s)\<lparr>r_visualPhase := r_visualPhase (reef s) + dt * (3 / 2)\<rparr>
     \<and> snd (update dt p r s) = (p, r)"
proof -
  have still: "\<not> playerMoved (detectMove p s)"
    using assms by (simp add: update_playerMoved)
  then have "\<not> playerMoved s"
    by (auto simp: detectMove_moved)
  then show ?thesis
    by (simp add: update_unfold Let_def detectMove_still [OF still] advancePhases_def)
qed

theorem freeze_gate_witness:
  "\<not> playerMoved (fst (update 1 (playerAt 1000 1000 0) zeros fresh))
   \<and> v_enemies (volcanic (fst (update 1 (playerAt 1000 1000 0) zeros fresh))) = v_enemies (volcanic fresh)
   \<and> geysers (volcanic (fst (update 1 (playerAt 1000 1000 0) zeros fresh))) = geysers (volcanic fresh)
   \<and> glacial (fst (update 1 (playerAt 1000 1000 0) zeros fresh)) = glacial fresh"
proof -
  have still: "\<not> playerMoved (fst (update 1 (playerAt 1000 1000 0) zeros fresh))"
    by (simp add: update_playerMoved detectMove_def fresh_flags Let_def)
  from freeze_gate [OF still] still show ?thesis by simp
qed

text \<open>
  The claim says that the geyser timers tick in those frames. In the fresh level a frame
  of one second with the player at rest leaves all five at 0.
\<close>

theorem geysers_wait_counterexample:
  "\<not> playerMoved (fst (update 1 (playerAt 1000 1000 0) zeros fresh))
   \<and> map timer (geysers (volcanic fresh)) = [0, 0, 0, 0, 0]
   \<and> map timer (geysers (volcanic (fst (update 1 (playerAt 1000 1000 0) zeros fresh)))) = [0, 0, 0, 0, 0]"
  by (simp add: update_unfold detectMove_def fresh_flags Let_def fresh_volcanic)

text \<open>
  Claim C5. The aim of an ice bullet divides by the distance as it is. After
  \<^verbatim>\<open>init(1)\<close>, a first frame with the player at the center and a second one with the
  player on the Frostwyrm's position, the zone holds a bullet whose position and
  velocity are \<^verbatim>\<open>NaN\<close>; no comparison removes it.
\<close>

theorem coincident_bullet_nan:
  "iceBullets (glacial (fst (run (fresh, zeros)
      [(1 / 60, playerAt 1000 1000 0), (1 / 60, playerAt 1500 500 0)])))
   = [\<lparr>b_x = NaN, b_y = NaN, b_vx = NaN, b_vy = NaN, b_radius = 8, b_alive = True\<rparr>]"
proof -
  have still: "\<not> playerMoved (detectMove (playerAt 1000 1000 0) fresh)"
    by (simp add: detectMove_def fresh_flags Let_def)
  note first = update_still [OF still, of "1 / 60" zeros]
  have notYet: "\<not> playerMoved firstFrame"
    using still by (simp add: firstFrame_def update_playerMoved)
  have prev: "prevPX firstFrame = Some 1000"
    using first by (simp add: firstFrame_def playerAt_def)
  have move: "playerMoved (detectMove (playerAt 1500 500 0) firstFrame)"
    and v: "volcanic (detectMove (playerAt 1500 500 0) firstFrame) =
       (volcanic firstFrame)\<lparr>v_enemies := map (\<lambda>e. e\<lparr>frozen := False\<rparr>) (v_enemies (volcanic firstFrame))\<rparr>"
    and g: "glacial (detectMove (playerAt 1500 500 0) firstFrame) =
       (glacial firstFrame)\<lparr>g_enemies := map (\<lambda>e. e\<lparr>frozen := False\<rparr>) (g_enemies (glacial firstFrame))\<rparr>"
    using detectMove_first_move [OF notYet prev, of "playerAt 1500 500 0"] by (simp_all add: playerAt_def)
  have run2: "fst (run (fresh, zeros) [(1 / 60, playerAt 1000 1000 0), (1 / 60, playerAt 1500 500 0)])
      = fst (update (1 / 60) (playerAt 1500 500 0) zeros firstFrame)"
    using first(5) by (simp add: Let_def split_beta firstFrame_def)
  have vol2: "volcanic (detectMove (playerAt 1500 500 0) firstFrame) =
       (volcanic fresh)\<lparr>v_visualPhase := 2 / 15,
          v_enemies := [(makeMagmawyrm 1 500 500 None None)\<lparr>frozen := False\<rparr>]\<rparr>"
    by (simp add: v first(1) [unfolded firstFrame_def [symmetric]] fresh_volcanic)
  have gla2: "g_enemies (glacial (detectMove (playerAt 1500 500 0) firstFrame)) =
        [(makeFrostwyrm 1 1500 500)\<lparr>frozen := False\<rparr>]"
     "iceBullets (glacial (detectMove (playerAt 1500 500 0) firstFrame)) = []"
     "bulletCooldown (glacial (detectMove (playerAt 1500 500 0) firstFrame)) = 0"
    by (simp_all add: g first(2) [unfolded firstFrame_def [symmetric]] fresh_glacial)
  have used: "abilityJustUsed (playerAt 1500 500 0) firstFrame = False"
    by (simp add: abilityJustUsed_def playerAt_def)
  have sm: "speedMult firstFrame = 1"
    by (simp add: first(9) [unfolded firstFrame_def [symmetric]] fresh_flags)
  have volc: "snd (updateVolcanic (1 / 60) (playerAt 1500 500 0) False 1 sz zeros
                 (volcanic (detectMove (playerAt 1500 500 0) firstFrame)))
              = (playerAt 1500 500 0, zeros)" for sz
    unfolding vol2
    by (simp add: fresh_volcanic
        updateVolcanic_def speedBoost_def volcanicHazards_def geyserStep_def pushOut_def
        tickEffects_def magmaBody_def magmaMove_def chasePlayer_def makeMagmawyrm_def arg_or1_def
        or1_def playerAt_def Let_def List.map_filter_simps split_beta)
  have "iceBullets (glacial (fst (update (1 / 60) (playerAt 1500 500 0) zeros firstFrame)))
      = [\<lparr>b_x = NaN, b_y = NaN, b_vx = NaN, b_vy = NaN, b_radius = 8, b_alive = True\<rparr>]"
    unfolding update_glacial [OF move] Let_def used sm volc fst_conv snd_conv updateGlacial_bullets gla2
    by (simp add: tickEffects_def makeFrostwyrm_def frostBody_def bulletStep_def moveBullet_def touches_def
        outOfBounds_def js_div_def playerAt_def Let_def List.map_filter_simps MAP_W_def MAP_H_def)
  then show ?thesis by (simp only: run2)
qed

text \<open>
  Claim C6. The Frostwyrm fires at a player who stands exactly on it, a bullet that has
  no speed and no direction. After \<^verbatim>\<open>init(1)\<close>, a first frame with the player 100px to
  the left of the Frostwyrm and a second one with the player on it, the cooldown is at
  2, as after a shot, and the zone holds the bullet, alive, with \<^verbatim>\<open>NaN\<close> for both
  components of its velocity, where the claim has a bullet of 210px/s toward the player.
\<close>

theorem coincident_shot_aimless:
  "bulletCooldown (glacial (fst (run (fresh, zeros)
      [(1 / 30, playerAt 1400 500 0), (1 / 30, playerAt 1500 500 0)]))) = 2
   \<and> map (\<lambda>b. (b_vx b, b_vy b, b_alive b)) (iceBullets (glacial (fst (run (fresh, zeros)
      [(1 / 30, playerAt 1400 500 0), (1 / 30, playerAt 1500 500 0)]))))
     = [(NaN, NaN, True)]"
proof -
  let ?a = "playerAt 1400 500 0" and ?b = "playerAt 1500 500 0"
  let ?s1 = "fst (update (1 / 30) ?a zeros fresh)"
  have still: "\<not> playerMoved (detectMove ?a fresh)"
    by (simp add: detectMove_def fresh_flags Let_def)
  note first = update_still [OF still, of "1 / 30" zeros]
  have notYet: "\<not> playerMoved ?s1"
    using still by (simp add: update_playerMoved)
  have prev: "prevPX ?s1 = Some 1400"
    using first by (simp add: playerAt_def)
  have move: "playerMoved (detectMove ?b ?s1)"
    and v: "volcanic (detectMove ?b ?s1) =
       (volcanic ?s1)\<lparr>v_enemies := map (\<lambda>e. e\<lparr>frozen := False\<rparr>) (v_enemies (volcanic ?s1))\<rparr>"
    and g: "glacial (detectMove ?b ?s1) =
       (glacial ?s1)\<lparr>g_enemies := map (\<lambda>e. e\<lparr>frozen := False\<rparr>) (g_enemies (glacial ?s1))\<rparr>"
    using detectMove_first_move [OF notYet prev, of ?b] by (simp_all add: playerAt_def)
  have run2: "fst (run (fresh, zeros) [(1 / 30, ?a), (1 / 30, ?b)]) = fst (update (1 / 30) ?b zeros ?s1)"
    using first(5) by (simp add: Let_def split_beta)
  have vol2: "volcanic (detectMove ?b ?s1) =
       (volcanic fresh)\<lparr>v_visualPhase := 4 / 15,
          v_enemies := [(makeMagmawyrm 1 500 500 None None)\<lparr>frozen := False\<rparr>]\<rparr>"
    by (simp add: v first(1) fresh_volcanic)
  have gla2: "g_enemies (glacial (detectMove ?b ?s1)) = [(makeFrostwyrm 1 1500 500)\<lparr>frozen := False\<rparr>]"
     "iceBullets (glacial (detectMove ?b ?s1)) = []"
     "bulletCooldown (glacial (detectMove ?b ?s1)) = 0"
    by (simp_all add: g first(2) fresh_glacial)
  have used: "abilityJustUsed ?b ?s1 = False"
    by (simp add: abilityJustUsed_def playerAt_def)
  have sm: "speedMult ?s1 = 1"
    by (simp add: first(9) fresh_flags)
  have volc: "snd (updateVolcanic (1 / 30) ?b False 1 sz zeros (volcanic (detectMove ?b ?s1)))
              = (?b, zeros)" for sz
    unfolding vol2
    by (simp add: fresh_volcanic
        updateVolcanic_def speedBoost_def volcanicHazards_def geyserStep_def pushOut_def
        tickEffects_def magmaBody_def magmaMove_def chasePlayer_def makeMagmawyrm_def arg_or1_def
        or1_def playerAt_def Let_def List.map_filter_simps split_beta)
  have "iceBullets (glacial (fst (update (1 / 30) ?b zeros ?s1)))
      = [\<lparr>b_x = NaN, b_y = NaN, b_vx = NaN, b_vy = NaN, b_radius = 8, b_alive = True\<rparr>]"
    unfolding update_glacial [OF move] Let_def used sm volc fst_conv snd_conv updateGlacial_bullets gla2
    by (simp add: tickEffects_def makeFrostwyrm_def frostBody_def bulletStep_def moveBullet_def touches_def
        outOfBounds_def js_div_def playerAt_def Let_def List.map_filter_simps MAP_W_def MAP_H_def)
  moreover have "bulletCooldown (glacial (fst (update (1 / 30) ?b zeros ?s1))) = 2"
    unfolding update_glacial [OF move] Let_def used sm volc fst_conv snd_conv updateGlacial_cooldown gla2
    by (simp add: tickEffects_def makeFrostwyrm_def frostBody_def js_div_def playerAt_def Let_def
        List.map_filter_simps)
  ultimately show ?thesis
    by (simp only: run2) simp
qed

section \<open>The claim about the eggs\<close>

text \<open>
  Claim C9. A frame leaves a collected egg as it is, position, timers, visibility and
  velocity, in each of the four zones, and the collection check itself returns a
  collected egg unchanged. For the canopy egg this needs the egg to have a host, which
  it has after \<^verbatim>\<open>init\<close> and after every frame from there: the escalation step assigns
  a host to an egg without one, collected or not.
\<close>

theorem collected_egg_stays:
  "(collected (v_egg (volcanic s)) \<longrightarrow> v_egg (volcanic (fst (update dt p r s))) = v_egg (volcanic s))
   \<and> (collected (g_egg (glacial s)) \<longrightarrow>
        g_egg (glacial (fst (update dt p r s))) = g_egg (glacial s)
        \<and> glacialEggStep dt q (g_egg (glacial s)) = g_egg (glacial s))
   \<and> (collected (r_egg (reef s)) \<longrightarrow>
        r_egg (reef (fst (update dt p r s))) = r_egg (reef s)
        \<and> reefEggStep dt q (r_egg (reef s)) = r_egg (reef s))
   \<and> (collected (c_egg (canopy s)) \<and> egg_host (c_egg (canopy s)) \<noteq> None \<longrightarrow>
        c_egg (canopy (fst (update dt p r s))) = c_egg (canopy s)
        \<and> canopyEggStep q obs (c_egg (canopy s)) = c_egg (canopy s))
   \<and> (unit_rng r0 \<longrightarrow> egg_host (c_egg (canopy (fst (run (init lvl r0) fs)))) \<noteq> None)"
  using run_canopy_host [OF init_canopy_host, of r0 lvl fs]
  by (simp add: update_eggs eggSteps_collected)

theorem collected_egg_stays_witness:
  "collected (v_egg (volcanic hatched)) \<and> collected (g_egg (glacial hatched))
   \<and> collected (r_egg (reef hatched)) \<and> collected (c_egg (canopy hatched))
   \<and> unit_rng zeros \<and> egg_host (c_egg (canopy hatched)) \<noteq> None \<and> playerMoved hatched
   \<and> v_egg (volcanic (fst (update (1 / 60) (playerAt 1000 1000 0) zeros hatched))) = v_egg (volcanic hatched)
   \<and> g_egg (glacial (fst (update (1 / 60) (playerAt 1000 1000 0) zeros hatched))) = g_egg (glacial hatched)
   \<and> r_egg (reef (fst (update (1 / 60) (playerAt 1000 1000 0) zeros hatched))) = r_egg (reef hatched)
   \<and> c_egg (canopy (fst (update (1 / 60) (playerAt 1000 1000 0) zeros hatched))) = c_egg (canopy hatched)"
proof -
  have eggs: "collected (v_egg (volcanic hatched))" "collected (g_egg (glacial hatched))"
    "collected (r_egg (reef hatched))" "collected (c_egg (canopy hatched))" "playerMoved hatched"
    and host: "egg_host (c_egg (canopy hatched)) = egg_host (c_egg (canopy (fst (run (init 1 zeros) []))))"
    by (simp_all add: hatched_def fresh_def)
  from collected_egg_stays [of hatched "1 / 60" "playerAt 1000 1000 0" zeros "playerAt 1000 1000 0" "[]" zeros 1 "[]"]
    eggs host unit_rng_zeros
  show ?thesis by simp
qed

end
